theory Spec2Isabelle
  imports Complex_Main "HOL-Library.Word" "HOL-Library.Sublist"
begin

section \<open>Values, exceptions and the outside world\<close>

text \<open>
  The programs of this repository (\<^verbatim>\<open>pixellab_client.py\<close> and
  \<^verbatim>\<open>scripts/generate_gallery.py\<close>) handle parsed JSON: what
  \<^verbatim>\<open>response.json()\<close> returns is a Python value built from \<^verbatim>\<open>None\<close>,
  booleans, numbers, strings, lists and dicts. A dict is an association list that is read
  with \<open>map_of\<close>; a Python \<^verbatim>\<open>int\<close> is an unbounded \<open>int\<close>.
\<close>

datatype json =
    JNull
  | JBool bool
  | JInt int
  | JFloat rat
  | JStr string
  | JList "json list"
  | JObj "(string \<times> json) list"

type_synonym byte = "8 word"

text \<open>
  The exceptions the code can meet, all of them subclasses of Python's \<^verbatim>\<open>Exception\<close>.
  \<open>RequestError\<close> stands for what the \<^verbatim>\<open>requests\<close> library raises (a
  connection failure, \<^verbatim>\<open>raise_for_status\<close> with the HTTP status, a body that is
  not JSON). \<open>RuntimeError job err\<close> is
  \<^verbatim>\<open>RuntimeError(f"Job {job_id} failed: {response.get('error')}")\<close> and
  \<open>TimeoutError job max_wait\<close> is
  \<^verbatim>\<open>TimeoutError(f"Job {job_id} did not complete within {max_wait} seconds")\<close>:
  the values formatted into the message are kept as arguments.
\<close>

datatype exn =
    ImportError
  | ValueError string
  | RequestError string
  | AttributeError
  | TypeError
  | KeyError
  | IndexError
  | BinasciiError
  | OSError string
  | RuntimeError string json
  | TimeoutError string int

record http_request =
  rmethod :: string
  url :: string
  authorization :: string
  content_type :: string
  params :: "json option"
  body :: "json option"

record metadata_entry =
  entry_id :: string
  filename :: string
  entry_description :: string
  entry_width :: int
  entry_height :: int
  entry_seed :: "int option"
  entry_generated_at :: string

record manifest =
  generated_at :: string
  images :: "metadata_entry list"

text \<open>
  What the code prints, one constructor per message (the three lines about the missing
  key are one message, and so are the lines of the summary and of the next steps).
\<close>

datatype message =
    LiveCalling string
  | ErrorSavingImage exn
  | ErrorNoApiKey
  | CheckingBalance
  | Balance json
  | WarningBalance exn
  | Generating string
  | Description string
  | ErrorNoImages string
  | Saved string
  | ErrorFailedToSave string
  | ErrorGenerating string exn
  | MetadataSaved string
  | Summary int int nat
  | NextSteps string

text \<open>
  Every effect of a run is an event of its trace, in the order in which the code performs
  it. An attempt that fails is in the trace too: \<open>OpenWB p\<close> is the call
  \<^verbatim>\<open>open(p, "wb")\<close>, whether it raises or not.
\<close>

datatype event =
    Http http_request
  | Mkdir string
  | OpenWB string
  | WriteBytes string "byte list"
  | DumpManifest string manifest
  | Print message
  | Time
  | Sleep nat

text \<open>
  The outside world is a record of oracles. Each of them sees the trace of the run so far,
  so the answer of the server or of the file system may depend on everything that
  happened before. \<open>b64decode\<close> is \<^verbatim>\<open>base64.b64decode\<close> of the standard
  library (a pure function of its argument); \<open>environ\<close> is the process environment
  after \<^verbatim>\<open>load_dotenv()\<close>; \<open>requests_installed\<close> says whether
  \<^verbatim>\<open>import requests\<close> succeeds; \<open>time_now\<close> is the clock read by
  \<^verbatim>\<open>time.time()\<close>, in seconds; \<open>project_root\<close> is
  \<^verbatim>\<open>Path(__file__).parent.parent\<close>.
\<close>

record env =
  environ :: "string \<Rightarrow> string option"
  requests_installed :: bool
  http :: "event list \<Rightarrow> http_request \<Rightarrow> exn + json"
  b64decode :: "string \<Rightarrow> exn + byte list"
  mkdir :: "event list \<Rightarrow> string \<Rightarrow> exn option"
  open_wb :: "event list \<Rightarrow> string \<Rightarrow> exn option"
  write_bytes :: "event list \<Rightarrow> string \<Rightarrow> byte list \<Rightarrow> exn option"
  dump_manifest :: "event list \<Rightarrow> string \<Rightarrow> manifest \<Rightarrow> exn option"
  now_iso :: "event list \<Rightarrow> string"
  time_now :: "event list \<Rightarrow> rat"
  project_root :: string

section \<open>Python primitives\<close>

text \<open>Truth value of a Python object, as \<^verbatim>\<open>if x:\<close> and \<^verbatim>\<open>not x\<close> test it.\<close>

fun truthy :: "json \<Rightarrow> bool" where
  "truthy JNull = False"
| "truthy (JBool b) = b"
| "truthy (JInt i) = (i \<noteq> 0)"
| "truthy (JFloat r) = (r \<noteq> 0)"
| "truthy (JStr s) = (s \<noteq> [])"
| "truthy (JList xs) = (xs \<noteq> [])"
| "truthy (JObj kvs) = (kvs \<noteq> [])"

text \<open>
  \<^verbatim>\<open>x.get(key, default)\<close>: only a dict has the method; on any other value the
  attribute lookup raises \<^verbatim>\<open>AttributeError\<close>.
\<close>

fun py_get :: "json \<Rightarrow> string \<Rightarrow> json \<Rightarrow> exn + json" where
  "py_get (JObj kvs) k d = Inr (case map_of kvs k of None \<Rightarrow> d | Some v \<Rightarrow> v)"
| "py_get _ k d = Inl AttributeError"

text \<open>\<^verbatim>\<open>x[0]\<close>. The keys of a parsed JSON object are strings, never \<^verbatim>\<open>0\<close>.\<close>

fun py_index0 :: "json \<Rightarrow> exn + json" where
  "py_index0 (JList []) = Inl IndexError"
| "py_index0 (JList (x # xs)) = Inr x"
| "py_index0 (JStr []) = Inl IndexError"
| "py_index0 (JStr (c # cs)) = Inr (JStr [c])"
| "py_index0 (JObj kvs) = Inl KeyError"
| "py_index0 _ = Inl TypeError"

text \<open>\<^verbatim>\<open>s.split(sep)\<close> for a one-character separator: \<^verbatim>\<open>"".split(",") == [""]\<close>.\<close>

fun split :: "char \<Rightarrow> string \<Rightarrow> string list" where
  "split sep [] = [[]]"
| "split sep (c # cs) =
     (if c = sep then [] # split sep cs
      else (case split sep cs of
              [] \<Rightarrow> [[c]]
            | w # ws \<Rightarrow> (c # w) # ws))"

text \<open>\<^verbatim>\<open>"," in x\<close>: substring test on a string, membership on a list, key test on a dict.\<close>

fun contains_comma :: "json \<Rightarrow> exn + bool" where
  "contains_comma (JStr s) = Inr (CHR '','' \<in> set s)"
| "contains_comma (JList xs) = Inr (JStr '','' \<in> set xs)"
| "contains_comma (JObj kvs) = Inr (map_of kvs '','' \<noteq> None)"
| "contains_comma _ = Inl TypeError"

text \<open>\<^verbatim>\<open>x.split(",")[1]\<close>: only a string has \<^verbatim>\<open>split\<close>.\<close>

fun split_comma_1 :: "json \<Rightarrow> exn + json" where
  "split_comma_1 (JStr s) =
     (case split (CHR '','') s of
        a # b # rest \<Rightarrow> Inr (JStr b)
      | _ \<Rightarrow> Inl IndexError)"
| "split_comma_1 _ = Inl AttributeError"

text \<open>\<^verbatim>\<open>str(n)\<close> for an integer, used by the f-string that names the PNG file.\<close>

fun digits :: "nat \<Rightarrow> string" where
  "digits n =
     (if n < 10 then [char_of (48 + n)]
      else digits (n div 10) @ [char_of (48 + n mod 10)])"

definition str_int :: "int \<Rightarrow> string" where
  "str_int i = (if i < 0 then CHR ''-'' # digits (nat (- i)) else digits (nat i))"

section \<open>\<^verbatim>\<open>save_base64_image\<close>\<close>

text \<open>
  Lines 102-103 of \<^verbatim>\<open>generate_gallery.py\<close>: the data-URL prefix is removed by
  taking element 1 of the split at commas.
\<close>

definition strip_prefix :: "json \<Rightarrow> exn + json" where
  "strip_prefix base64_data =
     (case contains_comma base64_data of
        Inl e \<Rightarrow> Inl e
      | Inr True \<Rightarrow> split_comma_1 base64_data
      | Inr False \<Rightarrow> Inr base64_data)"

text \<open>Line 106: \<^verbatim>\<open>base64.b64decode\<close> takes a string (or bytes, which JSON has not).\<close>

fun decode_arg :: "env \<Rightarrow> json \<Rightarrow> exn + byte list" where
  "decode_arg E (JStr s) = b64decode E s"
| "decode_arg E _ = Inl TypeError"

definition decode_image :: "env \<Rightarrow> json \<Rightarrow> exn + byte list" where
  "decode_image E base64_data =
     (case strip_prefix base64_data of
        Inl e \<Rightarrow> Inl e
      | Inr payload \<Rightarrow> decode_arg E payload)"

text \<open>
  Lines 109-110: \<^verbatim>\<open>with open(output_path, "wb") as f: f.write(image_bytes)\<close>.
  The body of the \<^verbatim>\<open>try\<close> returns the exception it ends with, if any, and the trace.
\<close>

definition write_image :: "env \<Rightarrow> event list \<Rightarrow> string \<Rightarrow> byte list \<Rightarrow> exn option \<times> event list" where
  "write_image E tr output_path image_bytes =
     (case open_wb E tr output_path of
        Some e \<Rightarrow> (Some e, tr @ [OpenWB output_path])
      | None \<Rightarrow>
          (let tr1 = tr @ [OpenWB output_path] in
           (write_bytes E tr1 output_path image_bytes,
            tr1 @ [WriteBytes output_path image_bytes])))"

definition save_base64_image :: "env \<Rightarrow> event list \<Rightarrow> json \<Rightarrow> string \<Rightarrow> bool \<times> event list" where
  "save_base64_image E tr base64_data output_path =
     (case decode_image E base64_data of
        Inl e \<Rightarrow> (False, tr @ [Print (ErrorSavingImage e)])
      | Inr image_bytes \<Rightarrow>
          (case write_image E tr output_path image_bytes of
             (None, tr') \<Rightarrow> (True, tr')
           | (Some e, tr') \<Rightarrow> (False, tr' @ [Print (ErrorSavingImage e)])))"

text \<open>
  A reference decoder for concrete runs: the non-strict loop of CPython's
  \<^verbatim>\<open>binascii.a2b_base64\<close>, on which \<^verbatim>\<open>base64.b64decode\<close> rests. Characters
  outside the alphabet are skipped, a complete pad sequence ends the input, and input that
  stops inside a quad is an error. The theorems below hold for every decoder; this one
  only instantiates them.
\<close>

definition b64_value :: "char \<Rightarrow> nat option" where
  "b64_value c =
     (let n = of_char c :: nat in
      if 65 \<le> n \<and> n \<le> 90 then Some (n - 65)
      else if 97 \<le> n \<and> n \<le> 122 then Some (n - 71)
      else if 48 \<le> n \<and> n \<le> 57 then Some (n + 4)
      else if n = 43 then Some 62
      else if n = 47 then Some 63
      else None)"

fun a2b_loop :: "nat \<Rightarrow> nat \<Rightarrow> nat \<Rightarrow> byte list \<Rightarrow> string \<Rightarrow> exn + byte list" where
  "a2b_loop quad_pos leftchar pads out [] =
     (if quad_pos \<noteq> 0 then Inl BinasciiError else Inr out)"
| "a2b_loop quad_pos leftchar pads out (c # cs) =
     (if c = CHR ''='' then
        (if quad_pos \<ge> 2 then
           (if quad_pos + (pads + 1) \<ge> 4 then Inr out
            else a2b_loop quad_pos leftchar (pads + 1) out cs)
         else a2b_loop quad_pos leftchar pads out cs)
      else
        (case b64_value c of
           None \<Rightarrow> a2b_loop quad_pos leftchar pads out cs
         | Some v \<Rightarrow>
             (if quad_pos = 0 then a2b_loop 1 v 0 out cs
              else if quad_pos = 1 then
                a2b_loop 2 (v mod 16) 0 (out @ [of_nat (leftchar * 4 + v div 16)]) cs
              else if quad_pos = 2 then
                a2b_loop 3 (v mod 4) 0 (out @ [of_nat (leftchar * 16 + v div 4)]) cs
              else a2b_loop 0 0 0 (out @ [of_nat (leftchar * 64 + v)]) cs)))"

definition std_b64decode :: "string \<Rightarrow> exn + byte list" where
  "std_b64decode s =
     (if list_ex (\<lambda>c. (of_char c :: nat) \<ge> 128) s then Inl (ValueError ''non-ASCII'')
      else a2b_loop 0 0 0 [] s)"

section \<open>The API client (\<^verbatim>\<open>pixellab_client.py\<close>)\<close>

record client =
  api_key :: "string option"
  base_url :: string

definition BASE_URL :: string where
  "BASE_URL = ''https://api.pixellab.ai/v2''"

text \<open>
  \<^verbatim>\<open>__init__\<close>: \<^verbatim>\<open>self.api_key = api_key or os.getenv("PIXELLAB_API_KEY")\<close>.
  An empty string is false for \<^verbatim>\<open>or\<close>, as \<^verbatim>\<open>None\<close> is.
\<close>

definition PixelLabClient :: "env \<Rightarrow> string option \<Rightarrow> string \<Rightarrow> client" where
  "PixelLabClient E key burl =
     \<lparr> api_key =
         (case key of
            None \<Rightarrow> environ E ''PIXELLAB_API_KEY''
          | Some k \<Rightarrow> if k \<noteq> [] then Some k else environ E ''PIXELLAB_API_KEY''),
       base_url = burl \<rparr>"

text \<open>
  \<^verbatim>\<open>_make_request\<close>. The oracle \<open>http\<close> answers for the exchange as a whole:
  the call of \<^verbatim>\<open>requests\<close>, \<^verbatim>\<open>raise_for_status()\<close> and
  \<^verbatim>\<open>response.json()\<close>.
\<close>

definition make_request ::
  "env \<Rightarrow> client \<Rightarrow> event list \<Rightarrow> string \<Rightarrow> string \<Rightarrow> json option \<Rightarrow> json option
     \<Rightarrow> (exn + json) \<times> event list" where
  "make_request E self tr method endpoint data prms =
     (if \<not> requests_installed E then (Inl ImportError, tr)
      else
        (case api_key self of
           None \<Rightarrow> (Inl (ValueError ''PIXELLAB_API_KEY not found''), tr)
         | Some k \<Rightarrow>
             if k = [] then (Inl (ValueError ''PIXELLAB_API_KEY not found''), tr)
             else
               (let rq = \<lparr> rmethod = method, url = base_url self @ endpoint,
                           authorization = ''Bearer '' @ k,
                           content_type = ''application/json'',
                           params = None, body = None \<rparr>
                in if method = ''GET'' then
                     (let g = rq\<lparr>params := prms\<rparr> in (http E tr g, tr @ [Http g]))
                   else if method = ''POST'' then
                     (let p = rq\<lparr>body := data\<rparr> in (http E tr p, tr @ [Http p]))
                   else (Inl (ValueError ''Unsupported HTTP method''), tr))))"

text \<open>
  \<^verbatim>\<open>_poll_background_job\<close>, lines 90-104. \<open>poll_step\<close> is one pass through the
  body of the \<^verbatim>\<open>while\<close> loop after the request has returned a response: it
  either ends the call (\<open>Some\<close> of the value returned or the exception raised) or lets
  the loop go on (\<open>None\<close>).
\<close>

definition poll_step :: "string \<Rightarrow> json \<Rightarrow> (exn + json) option" where
  "poll_step job_id response =
     (case py_get response ''data'' (JObj []) of
        Inl e \<Rightarrow> Some (Inl e)
      | Inr d \<Rightarrow>
          (case py_get d ''status'' JNull of
             Inl e \<Rightarrow> Some (Inl e)
           | Inr status \<Rightarrow>
               if status = JStr ''completed'' then Some (py_get response ''data'' (JObj []))
               else if status = JStr ''failed'' then
                 (case py_get response ''error'' JNull of
                    Inl e \<Rightarrow> Some (Inl e)
                  | Inr err \<Rightarrow> Some (Inl (RuntimeError job_id err)))
               else None))"

text \<open>
  The loop may run for ever if the clock never advances, so it is a partial function:
  \<open>None\<close> is a call that does not return.
\<close>

partial_function (option) poll_loop ::
  "env \<Rightarrow> client \<Rightarrow> string \<Rightarrow> int \<Rightarrow> rat \<Rightarrow> event list \<Rightarrow> ((exn + json) \<times> event list) option" where
  "poll_loop E self job_id max_wait start_time tr =
     (if time_now E tr - start_time < of_int max_wait then
        (case make_request E self (tr @ [Time]) ''GET'' (''/background-jobs/'' @ job_id) None None of
           (Inl e, tr1) \<Rightarrow> Some (Inl e, tr1)
         | (Inr response, tr1) \<Rightarrow>
             (case poll_step job_id response of
                Some r \<Rightarrow> Some (r, tr1)
              | None \<Rightarrow> poll_loop E self job_id max_wait start_time (tr1 @ [Sleep 2])))
      else Some (Inl (TimeoutError job_id max_wait), tr @ [Time]))"

text \<open>The argument \<open>max_wait\<close> is optional: \<^verbatim>\<open>max_wait: int = 300\<close>.\<close>

definition poll_background_job ::
  "env \<Rightarrow> client \<Rightarrow> event list \<Rightarrow> string \<Rightarrow> int option \<Rightarrow> ((exn + json) \<times> event list) option" where
  "poll_background_job E self tr job_id max_wait =
     poll_loop E self job_id (case max_wait of None \<Rightarrow> 300 | Some m \<Rightarrow> m)
       (time_now E tr) (tr @ [Time])"

text \<open>
  \<^verbatim>\<open>generate_image\<close>, lines 135-152: the request body, a dict built in this order.
  \<^verbatim>\<open>reference_images\<close> is an optional list, \<^verbatim>\<open>style_image\<close> and
  \<^verbatim>\<open>style_options\<close> are optional dicts; \<open>None\<close> is the default of the
  signature.
\<close>

definition build_payload ::
  "string \<Rightarrow> int \<Rightarrow> int \<Rightarrow> int option \<Rightarrow> bool \<Rightarrow> json list option
     \<Rightarrow> (string \<times> json) list option \<Rightarrow> (string \<times> json) list option \<Rightarrow> (string \<times> json) list" where
  "build_payload description width height seed no_background reference_images style_image style_options =
     [(''description'', JStr description),
      (''image_size'', JObj [(''width'', JInt width), (''height'', JInt height)])]
     @ (case seed of None \<Rightarrow> [] | Some s \<Rightarrow> [(''seed'', JInt s)])
     @ (if no_background then [(''no_background'', JBool True)] else [])
     @ (case reference_images of
          None \<Rightarrow> []
        | Some xs \<Rightarrow> if xs \<noteq> [] then [(''reference_images'', JList xs)] else [])
     @ (case style_image of
          None \<Rightarrow> []
        | Some d \<Rightarrow> if d \<noteq> [] then [(''style_image'', JObj d)] else [])
     @ (case style_options of
          None \<Rightarrow> []
        | Some d \<Rightarrow> if d \<noteq> [] then [(''style_options'', JObj d)] else [])"

text \<open>Lines 157-161: the result dict, read out of the response envelope.\<close>

definition extract_result :: "json \<Rightarrow> exn + json" where
  "extract_result response =
     (case py_get response ''data'' (JObj []) of
        Inl e \<Rightarrow> Inl e
      | Inr d \<Rightarrow>
          (case py_get d ''images'' (JList []) of
             Inl e \<Rightarrow> Inl e
           | Inr imgs \<Rightarrow>
               (case py_get response ''usage'' (JObj []) of
                  Inl e \<Rightarrow> Inl e
                | Inr usage \<Rightarrow>
                    (case py_get response ''success'' (JBool False) of
                       Inl e \<Rightarrow> Inl e
                     | Inr success \<Rightarrow>
                         Inr (JObj [(''images'', imgs), (''usage'', usage),
                                    (''success'', success)])))))"

definition generate_image ::
  "env \<Rightarrow> client \<Rightarrow> event list \<Rightarrow> string \<Rightarrow> int \<Rightarrow> int \<Rightarrow> int option \<Rightarrow> bool \<Rightarrow> json list option
     \<Rightarrow> (string \<times> json) list option \<Rightarrow> (string \<times> json) list option
     \<Rightarrow> (exn + json) \<times> event list" where
  "generate_image E self tr description width height seed no_background reference_images
       style_image style_options =
     (let tr0 = tr @ [Print (LiveCalling (take 50 description))];
          payload = build_payload description width height seed no_background
                      reference_images style_image style_options
      in case make_request E self tr0 ''POST'' ''/generate-image-v2'' (Some (JObj payload)) None of
           (Inl e, tr1) \<Rightarrow> (Inl e, tr1)
         | (Inr response, tr1) \<Rightarrow> (extract_result response, tr1))"

text \<open>\<^verbatim>\<open>get_balance\<close>, lines 207-210.\<close>

definition get_balance :: "env \<Rightarrow> client \<Rightarrow> event list \<Rightarrow> (exn + json) \<times> event list" where
  "get_balance E self tr =
     (case make_request E self tr ''GET'' ''/balance'' None None of
        (Inl e, tr1) \<Rightarrow> (Inl e, tr1)
      | (Inr response, tr1) \<Rightarrow> (py_get response ''data'' (JObj []), tr1))"

text \<open>
  The requests the client sends, given the key \<open>key\<close> it holds: the status request of
  the poll and the generation request with body \<open>payload\<close>.
\<close>

definition poll_request :: "client \<Rightarrow> string \<Rightarrow> string \<Rightarrow> http_request" where
  "poll_request self key job_id =
     \<lparr> rmethod = ''GET'', url = base_url self @ ''/background-jobs/'' @ job_id,
       authorization = ''Bearer '' @ key, content_type = ''application/json'',
       params = None, body = None \<rparr>"

definition image_request :: "client \<Rightarrow> string \<Rightarrow> (string \<times> json) list \<Rightarrow> http_request" where
  "image_request self key payload =
     \<lparr> rmethod = ''POST'', url = base_url self @ ''/generate-image-v2'',
       authorization = ''Bearer '' @ key, content_type = ''application/json'',
       params = None, body = Some (JObj payload) \<rparr>"

text \<open>
  Vocabulary for the poll. \<open>poll_trace tr rq k\<close> is the trace \<open>tr\<close> followed by
  \<open>k\<close> rounds of the loop that did not end it: a reading of the clock, the request,
  a sleep of 2 seconds. \<open>poll_pending\<close> holds of the trace at the head of a round when
  the clock is within \<open>max_wait\<close> of the start, the request returns a response, and
  that response ends the call neither with a value nor with an exception.
\<close>

fun poll_trace :: "event list \<Rightarrow> http_request \<Rightarrow> nat \<Rightarrow> event list" where
  "poll_trace tr rq 0 = tr"
| "poll_trace tr rq (Suc k) = poll_trace tr rq k @ [Time, Http rq, Sleep 2]"

definition poll_pending :: "env \<Rightarrow> string \<Rightarrow> int \<Rightarrow> rat \<Rightarrow> http_request \<Rightarrow> event list \<Rightarrow> bool" where
  "poll_pending E job_id max_wait start_time rq tr =
     (time_now E tr - start_time < of_int max_wait
      \<and> (case http E (tr @ [Time]) rq of
           Inl e \<Rightarrow> False
         | Inr response \<Rightarrow> poll_step job_id response = None))"

section \<open>The batch driver (\<^verbatim>\<open>scripts/generate_gallery.py\<close>)\<close>

text \<open>
  An element of \<^verbatim>\<open>GALLERY_IMAGES\<close>. The loop reads \<^verbatim>\<open>id\<close> and
  \<^verbatim>\<open>description\<close> by subscript and the other keys with \<^verbatim>\<open>get\<close>, so
  these may be absent.
\<close>

record config =
  cfg_id :: string
  cfg_description :: string
  cfg_width :: "int option"
  cfg_height :: "int option"
  cfg_seed :: "int option"

definition GALLERY_IMAGES :: "config list" where
  "GALLERY_IMAGES =
     [\<lparr> cfg_id = ''wizard'',
        cfg_description = ''a mysterious pixel art wizard with a glowing staff and purple robes, fantasy RPG style'',
        cfg_width = Some 128, cfg_height = Some 128, cfg_seed = Some 42 \<rparr>,
      \<lparr> cfg_id = ''knight'',
        cfg_description = ''a brave pixel art knight in shining armor with a sword and shield, retro game style'',
        cfg_width = Some 128, cfg_height = Some 128, cfg_seed = Some 123 \<rparr>,
      \<lparr> cfg_id = ''dragon'',
        cfg_description = ''a fierce pixel art dragon breathing fire, classic 16-bit RPG style'',
        cfg_width = Some 128, cfg_height = Some 128, cfg_seed = Some 456 \<rparr>,
      \<lparr> cfg_id = ''spaceship'',
        cfg_description = ''a sleek pixel art spaceship with glowing engines, retro sci-fi arcade style'',
        cfg_width = Some 128, cfg_height = Some 128, cfg_seed = Some 789 \<rparr>,
      \<lparr> cfg_id = ''robot'',
        cfg_description = ''a friendly pixel art robot with antenna and digital eyes, cute retro style'',
        cfg_width = Some 128, cfg_height = Some 128, cfg_seed = Some 101 \<rparr>,
      \<lparr> cfg_id = ''treasure'',
        cfg_description = ''an open pixel art treasure chest overflowing with gold coins and gems, classic RPG style'',
        cfg_width = Some 128, cfg_height = Some 128, cfg_seed = Some 202 \<rparr>]"

definition GALLERY_DIR :: "env \<Rightarrow> string" where
  "GALLERY_DIR E = project_root E @ ''/assets/gallery''"

definition IMAGES_DIR :: "env \<Rightarrow> string" where
  "IMAGES_DIR E = GALLERY_DIR E @ ''/images''"

definition METADATA_FILE :: "env \<Rightarrow> string" where
  "METADATA_FILE E = GALLERY_DIR E @ ''/metadata.json''"

text \<open>\<^verbatim>\<open>x[key]\<close> with a string key.\<close>

fun py_getitem :: "json \<Rightarrow> string \<Rightarrow> exn + json" where
  "py_getitem (JObj kvs) k = (case map_of kvs k of None \<Rightarrow> Inl KeyError | Some v \<Rightarrow> Inr v)"
| "py_getitem _ k = Inl TypeError"

text \<open>The variables the loop of \<^verbatim>\<open>generate_gallery\<close> updates, and the trace.\<close>

record loop_state =
  trace :: "event list"
  metadata :: manifest
  successful :: int
  failed :: int

definition width_of :: "config \<Rightarrow> int" where
  "width_of c = (case cfg_width c of None \<Rightarrow> 128 | Some w \<Rightarrow> w)"

definition height_of :: "config \<Rightarrow> int" where
  "height_of c = (case cfg_height c of None \<Rightarrow> 128 | Some h \<Rightarrow> h)"

text \<open>\<^verbatim>\<open>f"{image_id}_{width}x{height}.png"\<close> and the path under the images directory.\<close>

definition png_name :: "config \<Rightarrow> string" where
  "png_name c = cfg_id c @ ''_'' @ str_int (width_of c) @ ''x'' @ str_int (height_of c) @ ''.png''"

definition output_path_of :: "env \<Rightarrow> config \<Rightarrow> string" where
  "output_path_of E c = IMAGES_DIR E @ ''/'' @ png_name c"

text \<open>The two prints that open an iteration (lines 159-160).\<close>

definition item_header :: "config \<Rightarrow> event list" where
  "item_header c =
     [Print (Generating (cfg_id c)), Print (Description (take 60 (cfg_description c)))]"

text \<open>The call of lines 164-169: only \<^verbatim>\<open>seed\<close> is passed besides the mandatory arguments.\<close>

definition call_generate :: "env \<Rightarrow> client \<Rightarrow> event list \<Rightarrow> config \<Rightarrow> (exn + json) \<times> event list" where
  "call_generate E cl tr c =
     generate_image E cl (tr @ item_header c) (cfg_description c) (width_of c) (height_of c)
       (cfg_seed c) False None None None"

text \<open>The handler of line 198: \<^verbatim>\<open>except Exception as e\<close>.\<close>

definition item_raised :: "loop_state \<Rightarrow> config \<Rightarrow> exn \<Rightarrow> event list \<Rightarrow> loop_state" where
  "item_raised st c e tr =
     st\<lparr>trace := tr @ [Print (ErrorGenerating (cfg_id c) e)], failed := failed st + 1\<rparr>"

text \<open>One iteration of the loop, lines 153-200.\<close>

definition process_item :: "env \<Rightarrow> client \<Rightarrow> loop_state \<Rightarrow> config \<Rightarrow> loop_state" where
  "process_item E cl st c =
     (case call_generate E cl (trace st) c of
        (Inl e, tr1) \<Rightarrow> item_raised st c e tr1
      | (Inr response, tr1) \<Rightarrow>
          (case py_get response ''images'' JNull of
             Inl e \<Rightarrow> item_raised st c e tr1
           | Inr imgs \<Rightarrow>
               if \<not> truthy imgs then
                 st\<lparr>trace := tr1 @ [Print (ErrorNoImages (cfg_id c))], failed := failed st + 1\<rparr>
               else
                 (case py_getitem response ''images'' of
                    Inl e \<Rightarrow> item_raised st c e tr1
                  | Inr imgs2 \<Rightarrow>
                      (case py_index0 imgs2 of
                         Inl e \<Rightarrow> item_raised st c e tr1
                       | Inr base64_image \<Rightarrow>
                           (case save_base64_image E tr1 base64_image (output_path_of E c) of
                              (True, tr2) \<Rightarrow>
                                (let tr3 = tr2 @ [Print (Saved (png_name c))];
                                     entry = \<lparr> entry_id = cfg_id c, filename = png_name c,
                                               entry_description = cfg_description c,
                                               entry_width = width_of c, entry_height = height_of c,
                                               entry_seed = cfg_seed c,
                                               entry_generated_at = now_iso E tr3 \<rparr>
                                 in st\<lparr>trace := tr3,
                                       metadata := (metadata st)\<lparr>images := images (metadata st) @ [entry]\<rparr>,
                                       successful := successful st + 1\<rparr>)
                            | (False, tr2) \<Rightarrow>
                                st\<lparr>trace := tr2 @ [Print (ErrorFailedToSave (cfg_id c))],
                                   failed := failed st + 1\<rparr>)))))"

fun gallery_loop :: "env \<Rightarrow> client \<Rightarrow> loop_state \<Rightarrow> config list \<Rightarrow> loop_state" where
  "gallery_loop E cl st [] = st"
| "gallery_loop E cl st (c # cs) = gallery_loop E cl (process_item E cl st c) cs"

text \<open>Lines 136-141: the balance check and its handler.\<close>

definition check_balance :: "env \<Rightarrow> client \<Rightarrow> event list \<Rightarrow> event list" where
  "check_balance E cl tr =
     (case get_balance E cl (tr @ [Print CheckingBalance]) of
        (Inr balance, tr1) \<Rightarrow> tr1 @ [Print (Balance balance)]
      | (Inl e, tr1) \<Rightarrow> tr1 @ [Print (WarningBalance e)])"

text \<open>Lines 144-150: the state in which the loop starts.\<close>

definition init_state :: "env \<Rightarrow> event list \<Rightarrow> loop_state" where
  "init_state E tr =
     \<lparr> trace = tr, metadata = \<lparr> generated_at = now_iso E tr, images = [] \<rparr>,
       successful = 0, failed = 0 \<rparr>"

datatype outcome = Completed | SysExit int | Uncaught exn

text \<open>
  Lines 202-222: the manifest is written and the summary printed. Nothing catches an
  exception of the write.
\<close>

definition finish :: "env \<Rightarrow> loop_state \<Rightarrow> nat \<Rightarrow> outcome \<times> event list" where
  "finish E st n_total =
     (let tr1 = trace st @ [DumpManifest (METADATA_FILE E) (metadata st)]
      in case dump_manifest E (trace st) (METADATA_FILE E) (metadata st) of
           Some e \<Rightarrow> (Uncaught e, tr1)
         | None \<Rightarrow>
             (Completed,
              tr1 @ [Print (MetadataSaved (METADATA_FILE E)),
                     Print (Summary (successful st) (failed st) n_total)]
                  @ (if successful st > 0 then [Print (NextSteps (IMAGES_DIR E))] else [])))"

text \<open>
  The client the driver builds and the state after its loop, for a run that has found
  the key \<open>k\<close> and created the images directory.
\<close>

definition driver_client :: "env \<Rightarrow> string \<Rightarrow> client" where
  "driver_client E k = PixelLabClient E (Some k) BASE_URL"

definition loop_start :: "env \<Rightarrow> string \<Rightarrow> loop_state" where
  "loop_start E k = init_state E (check_balance E (driver_client E k) [Mkdir (IMAGES_DIR E)])"

definition loop_end :: "env \<Rightarrow> string \<Rightarrow> config list \<Rightarrow> loop_state" where
  "loop_end E k cfgs = gallery_loop E (driver_client E k) (loop_start E k) cfgs"

text \<open>
  \<^verbatim>\<open>generate_gallery\<close>, over any list of requests; \<open>generate_gallery\<close> itself
  runs it over \<open>GALLERY_IMAGES\<close>. The run starts with an empty trace.
\<close>

definition generate_gallery_on :: "env \<Rightarrow> config list \<Rightarrow> outcome \<times> event list" where
  "generate_gallery_on E cfgs =
     (case environ E ''PIXELLAB_API_KEY'' of
        None \<Rightarrow> (SysExit 1, [Print ErrorNoApiKey])
      | Some k \<Rightarrow>
          if k = [] then (SysExit 1, [Print ErrorNoApiKey])
          else
            (case mkdir E [] (IMAGES_DIR E) of
               Some e \<Rightarrow> (Uncaught e, [Mkdir (IMAGES_DIR E)])
             | None \<Rightarrow> finish E (loop_end E k cfgs) (length cfgs)))"

definition generate_gallery :: "env \<Rightarrow> outcome \<times> event list" where
  "generate_gallery E = generate_gallery_on E GALLERY_IMAGES"

text \<open>
  What the claims speak of, read off a trace: the network calls, the file-system
  operations, the manifests written, the items the loop has started.
\<close>

fun is_http :: "event \<Rightarrow> bool" where
  "is_http (Http r) = True"
| "is_http _ = False"

fun is_fs :: "event \<Rightarrow> bool" where
  "is_fs (Mkdir p) = True"
| "is_fs (OpenWB p) = True"
| "is_fs (WriteBytes p bs) = True"
| "is_fs (DumpManifest p m) = True"
| "is_fs _ = False"

fun written_files :: "event list \<Rightarrow> string list" where
  "written_files [] = []"
| "written_files (OpenWB p # tr) = p # written_files tr"
| "written_files (WriteBytes p bs # tr) = p # written_files tr"
| "written_files (e # tr) = written_files tr"

fun written_manifests :: "event list \<Rightarrow> manifest list" where
  "written_manifests [] = []"
| "written_manifests (DumpManifest p m # tr) = m # written_manifests tr"
| "written_manifests (e # tr) = written_manifests tr"

fun started_items :: "event list \<Rightarrow> string list" where
  "started_items [] = []"
| "started_items (Print (Generating i) # tr) = i # started_items tr"
| "started_items (e # tr) = started_items tr"

fun summaries :: "event list \<Rightarrow> (int \<times> int \<times> nat) list" where
  "summaries [] = []"
| "summaries (Print (Summary s f n) # tr) = (s, f, n) # summaries tr"
| "summaries (e # tr) = summaries tr"

text \<open>
  The states in which the iterations start, one per request, and the requests for which
  the three stages of an iteration all succeed: \<^verbatim>\<open>generate_image\<close> returns a
  result with a first image, that image decodes, and the file is opened and written.
\<close>

fun item_starts :: "env \<Rightarrow> client \<Rightarrow> loop_state \<Rightarrow> config list \<Rightarrow> loop_state list" where
  "item_starts E cl st [] = []"
| "item_starts E cl st (c # cs) = st # item_starts E cl (process_item E cl st c) cs"

definition item_succeeded :: "env \<Rightarrow> client \<Rightarrow> loop_state \<Rightarrow> config \<Rightarrow> bool" where
  "item_succeeded E cl st c =
     (case call_generate E cl (trace st) c of
        (Inl e, tr1) \<Rightarrow> False
      | (Inr response, tr1) \<Rightarrow>
          (case py_get response ''images'' JNull of
             Inl e \<Rightarrow> False
           | Inr imgs \<Rightarrow>
               (case py_index0 imgs of
                  Inl e \<Rightarrow> False
                | Inr base64_image \<Rightarrow>
                    (case decode_image E base64_image of
                       Inl e \<Rightarrow> False
                     | Inr image_bytes \<Rightarrow>
                         fst (write_image E tr1 (output_path_of E c) image_bytes) = None))))"

definition succeeded_items :: "env \<Rightarrow> client \<Rightarrow> loop_state \<Rightarrow> config list \<Rightarrow> config list" where
  "succeeded_items E cl st cfgs =
     map snd (filter (\<lambda>(s, c). item_succeeded E cl s c) (zip (item_starts E cl st cfgs) cfgs))"

definition expected_entry :: "config \<Rightarrow> string \<times> string \<times> string \<times> int \<times> int \<times> int option" where
  "expected_entry c =
     (cfg_id c, png_name c, cfg_description c, width_of c, height_of c, cfg_seed c)"

definition entry_fields :: "metadata_entry \<Rightarrow> string \<times> string \<times> string \<times> int \<times> int \<times> int option" where
  "entry_fields m =
     (entry_id m, filename m, entry_description m, entry_width m, entry_height m, entry_seed m)"

text \<open>
  The events an iteration of the loop can add after its two opening prints: the request,
  the file operations, and the messages of \<^verbatim>\<open>generate_image\<close>,
  \<^verbatim>\<open>save_base64_image\<close> and the loop body.
\<close>

fun item_event :: "event \<Rightarrow> bool" where
  "item_event (Http r) = True"
| "item_event (OpenWB p) = True"
| "item_event (WriteBytes p bs) = True"
| "item_event (Print (LiveCalling s)) = True"
| "item_event (Print (ErrorSavingImage e)) = True"
| "item_event (Print (ErrorNoImages i)) = True"
| "item_event (Print (Saved n)) = True"
| "item_event (Print (ErrorFailedToSave i)) = True"
| "item_event (Print (ErrorGenerating i e)) = True"
| "item_event _ = False"

section \<open>Concrete worlds\<close>

text \<open>
  A quiet world: every call succeeds, the server answers \<open>r\<close>, the clock stands
  still.
\<close>

definition quiet_env :: "json \<Rightarrow> env" where
  "quiet_env r =
     \<lparr> environ = (\<lambda>k. if k = ''PIXELLAB_API_KEY'' then Some ''secret'' else None),
       requests_installed = True,
       http = (\<lambda>tr rq. Inr r),
       b64decode = std_b64decode,
       mkdir = (\<lambda>tr p. None),
       open_wb = (\<lambda>tr p. None),
       write_bytes = (\<lambda>tr p bs. None),
       dump_manifest = (\<lambda>tr p m. None),
       now_iso = (\<lambda>tr. ''2024-01-01T00:00:00''),
       time_now = (\<lambda>tr. 0),
       project_root = ''/site'' \<rparr>"

text \<open>
  A world for the poll: time passes only in \<^verbatim>\<open>time.sleep\<close>, and the server
  reports the job as pending until \<open>n\<close> seconds have been slept, then answers \<open>r\<close>.
\<close>

definition pending_response :: json where
  "pending_response = JObj [(''data'', JObj [(''status'', JStr ''pending'')])]"

definition slept :: "event list \<Rightarrow> nat" where
  "slept tr = sum_list (map (\<lambda>e. case e of Sleep n \<Rightarrow> n | _ \<Rightarrow> 0) tr)"

definition job_env :: "nat \<Rightarrow> json \<Rightarrow> env" where
  "job_env n r =
     (quiet_env r)\<lparr> http := (\<lambda>tr rq. if slept tr < n then Inr pending_response else Inr r),
                    time_now := (\<lambda>tr. of_nat (slept tr)) \<rparr>"

definition job_client :: client where
  "job_client = \<lparr> api_key = Some ''secret'', base_url = BASE_URL \<rparr>"

text \<open>
  A world for the driver: the balance request fails with status 503; the generation
  request with seed 456 (the dragon) is answered with an empty list of images, the one
  with seed 101 (the robot) fails with status 500, every other one returns one image as a
  data URL. \<open>no_key_env\<close> is a world without \<^verbatim>\<open>PIXELLAB_API_KEY\<close>, and
  \<open>after_two\<close> is the state of the loop after the first two requests.
\<close>

definition ok_response :: json where
  "ok_response =
     JObj [(''success'', JBool True),
           (''data'', JObj [(''images'', JList [JStr ''data:image/png;base64,aGVsbG8=''])]),
           (''usage'', JObj [(''usd'', JInt 1)])]"

definition gallery_env :: env where
  "gallery_env =
     (quiet_env ok_response)
       \<lparr> http := (\<lambda>tr rq.
            if rmethod rq = ''GET'' then Inl (RequestError ''503'')
            else (case body rq of
                    Some (JObj p) \<Rightarrow>
                      if map_of p ''seed'' = Some (JInt 456)
                      then Inr (JObj [(''success'', JBool True), (''data'', JObj [(''images'', JList [])])])
                      else if map_of p ''seed'' = Some (JInt 101) then Inl (RequestError ''500'')
                      else Inr ok_response
                  | _ \<Rightarrow> Inl (RequestError ''400''))) \<rparr>"


definition no_key_env :: env where
  "no_key_env = (quiet_env ok_response)\<lparr> environ := (\<lambda>k. None) \<rparr>"

definition after_two :: loop_state where
  "after_two = gallery_loop gallery_env (driver_client gallery_env ''secret'')
                 (loop_start gallery_env ''secret'') (take 2 GALLERY_IMAGES)"

section \<open>Properties of the base64 path\<close>

lemma split_nonempty: "split sep s \<noteq> []"
  by (induction s) (auto split: list.splits)

lemma split_no_sep: "sep \<notin> set s \<Longrightarrow> split sep s = [s]"
  by (induction s) auto

lemma split_append_sep:
  "sep \<notin> set a \<Longrightarrow> split sep (a @ sep # s) = a # split sep s"
  by (induction a) (auto split: list.splits)

lemma strip_prefix_no_comma:
  "CHR '','' \<notin> set s \<Longrightarrow> strip_prefix (JStr s) = Inr (JStr s)"
  by (simp add: strip_prefix_def)

lemma strip_prefix_one_comma:
  assumes "CHR '','' \<notin> set p"
  shows "strip_prefix (JStr (p @ CHR '','' # s)) = Inr (JStr (hd (split (CHR '','') s)))"
proof -
  obtain w ws where "split (CHR '','') s = w # ws"
    using split_nonempty [of "CHR '',''" s] by (cases "split (CHR '','') s") auto
  then show ?thesis
    using assms by (simp add: strip_prefix_def split_append_sep)
qed

lemma hd_split_no_sep: "sep \<notin> set b \<Longrightarrow> hd (split sep (b @ sep # r)) = b"
  by (simp add: split_append_sep)

text \<open>
  Claim C3. \<^verbatim>\<open>save_base64_image\<close> strips a leading data-URL prefix before it
  decodes: for every payload \<open>s\<close> without a comma (the base64 alphabet has none),
  the input \<^verbatim>\<open>data:image/png;base64,\<close> followed by \<open>s\<close> decodes to the same
  bytes as \<open>s\<close> alone, which are the bytes \<^verbatim>\<open>base64.b64decode\<close> gives for
  \<open>s\<close>, and the whole call behaves the same on both inputs. The witness is the pair
  of inputs of the specification, which decode to the bytes of \<^verbatim>\<open>hello\<close>.
\<close>

theorem base64_prefix_stripped:
  assumes "CHR '','' \<notin> set s"
  shows "decode_image E (JStr (''data:image/png;base64,'' @ s)) = decode_image E (JStr s)
       \<and> save_base64_image E tr (JStr (''data:image/png;base64,'' @ s)) p
           = save_base64_image E tr (JStr s) p
       \<and> decode_image E (JStr s) = b64decode E s"
proof -
  have "strip_prefix (JStr (''data:image/png;base64'' @ CHR '','' # s)) = Inr (JStr (hd (split (CHR '','') s)))"
    by (rule strip_prefix_one_comma) simp
  then have a: "strip_prefix (JStr (''data:image/png;base64,'' @ s)) = Inr (JStr s)"
    using assms by (simp add: split_no_sep)
  have b: "strip_prefix (JStr s) = Inr (JStr s)"
    using assms by (rule strip_prefix_no_comma)
  show ?thesis
    using a b by (simp add: decode_image_def save_base64_image_def)
qed

theorem base64_prefix_stripped_witness:
  "CHR '','' \<notin> set ''aGVsbG8=''
   \<and> decode_image (quiet_env JNull) (JStr ''data:image/png;base64,aGVsbG8='')
       = decode_image (quiet_env JNull) (JStr ''aGVsbG8='')
   \<and> decode_image (quiet_env JNull) (JStr ''aGVsbG8='') = Inr [104, 101, 108, 108, 111]"
proof -
  have h: "CHR '','' \<notin> set ''aGVsbG8=''" by simp
  have d: "std_b64decode ''aGVsbG8='' = Inr [104, 101, 108, 108, 111]"
    by (simp add: std_b64decode_def b64_value_def)
  show ?thesis
    using h base64_prefix_stripped [OF h, of "quiet_env JNull" "[]" "''x''"] d
    by (simp add: quiet_env_def)
qed

text \<open>
  Claim C9. When the input string of \<^verbatim>\<open>save_base64_image\<close> has two commas or
  more, it is \<open>a\<close>, a comma, \<open>b\<close>, a comma and a rest, with no comma in
  \<open>a\<close> or \<open>b\<close>; what is decoded is \<open>b\<close>, the segment between the first and
  the second comma, and the call behaves as on the input \<open>b\<close> alone: the rest after
  the second comma plays no part.
\<close>

theorem second_segment_decoded:
  assumes "2 \<le> count_list s (CHR '','')"
  shows "\<exists>a b rest. s = a @ CHR '','' # b @ CHR '','' # rest
           \<and> CHR '','' \<notin> set a \<and> CHR '','' \<notin> set b
           \<and> decode_image E (JStr s) = b64decode E b
           \<and> save_base64_image E tr (JStr s) p = save_base64_image E tr (JStr b) p"
proof -
  have "CHR '','' \<in> set s"
    using assms by (metis count_list_0_iff not_numeral_le_zero)
  then obtain a r where s: "s = a @ CHR '','' # r" and a: "CHR '','' \<notin> set a"
    by (auto dest: split_list_first)
  have "count_list a (CHR '','') = 0"
    using a by (simp add: count_list_0_iff)
  then have "1 \<le> count_list r (CHR '','')"
    using assms by (simp add: s)
  then have "CHR '','' \<in> set r"
    by (metis count_list_0_iff not_one_le_zero)
  then obtain b rest where r: "r = b @ CHR '','' # rest" and b: "CHR '','' \<notin> set b"
    by (auto dest: split_list_first)
  have "strip_prefix (JStr s) = Inr (JStr b)"
    unfolding s r using a b by (simp add: strip_prefix_one_comma split_append_sep)
  moreover have "strip_prefix (JStr b) = Inr (JStr b)"
    using b by (rule strip_prefix_no_comma)
  ultimately have "decode_image E (JStr s) = b64decode E b
      \<and> save_base64_image E tr (JStr s) p = save_base64_image E tr (JStr b) p"
    by (simp add: decode_image_def save_base64_image_def)
  with s r a b show ?thesis by blast
qed

theorem second_segment_decoded_witness:
  "2 \<le> count_list ''data:image/png;base64,aGVsbG8=,d29ybGQ='' (CHR '','')
   \<and> decode_image (quiet_env JNull) (JStr ''data:image/png;base64,aGVsbG8=,d29ybGQ='')
       = Inr [104, 101, 108, 108, 111]
   \<and> (\<exists>a b rest. ''data:image/png;base64,aGVsbG8=,d29ybGQ='' = a @ CHR '','' # b @ CHR '','' # rest
           \<and> CHR '','' \<notin> set a \<and> CHR '','' \<notin> set b
           \<and> decode_image (quiet_env JNull) (JStr ''data:image/png;base64,aGVsbG8=,d29ybGQ='')
                = b64decode (quiet_env JNull) b)"
proof -
  have h: "2 \<le> count_list ''data:image/png;base64,aGVsbG8=,d29ybGQ='' (CHR '','')" by simp
  have d: "decode_image (quiet_env JNull) (JStr ''data:image/png;base64,aGVsbG8=,d29ybGQ='')
       = Inr [104, 101, 108, 108, 111]"
    by (simp add: decode_image_def strip_prefix_def quiet_env_def std_b64decode_def b64_value_def)
  from second_segment_decoded [OF h, of "quiet_env JNull" "[]" "''x''"]
  have "\<exists>a b rest. ''data:image/png;base64,aGVsbG8=,d29ybGQ='' = a @ CHR '','' # b @ CHR '','' # rest
           \<and> CHR '','' \<notin> set a \<and> CHR '','' \<notin> set b
           \<and> decode_image (quiet_env JNull) (JStr ''data:image/png;base64,aGVsbG8=,d29ybGQ='')
                = b64decode (quiet_env JNull) b"
    by blast
  with h d show ?thesis by blast
qed

section \<open>Properties of the client\<close>

lemma make_request_get:
  assumes "requests_installed E" "api_key self = Some key" "key \<noteq> []"
  shows "make_request E self tr ''GET'' (''/background-jobs/'' @ job_id) None None
         = (http E tr (poll_request self key job_id), tr @ [Http (poll_request self key job_id)])"
  using assms by (simp add: make_request_def poll_request_def Let_def)

lemma poll_loop_round:
  assumes "requests_installed E" "api_key self = Some key" "key \<noteq> []"
    and "poll_pending E job_id m start (poll_request self key job_id) tr"
  shows "poll_loop E self job_id m start tr
         = poll_loop E self job_id m start (tr @ [Time, Http (poll_request self key job_id), Sleep 2])"
proof -
  from assms(4) obtain response where
    t: "time_now E tr - start < of_int m" and
    h: "http E (tr @ [Time]) (poll_request self key job_id) = Inr response" and
    p: "poll_step job_id response = None"
    by (auto simp: poll_pending_def split: sum.splits)
  show ?thesis
    by (subst poll_loop.simps) (simp add: t h p make_request_get [OF assms(1-3), simplified])
qed

lemma poll_loop_rounds:
  assumes "requests_installed E" "api_key self = Some key" "key \<noteq> []"
    and "\<forall>j<k. poll_pending E job_id m start (poll_request self key job_id)
                 (poll_trace tr (poll_request self key job_id) j)"
  shows "poll_loop E self job_id m start tr
         = poll_loop E self job_id m start (poll_trace tr (poll_request self key job_id) k)"
  using assms(4)
proof (induction k)
  case 0
  then show ?case by simp
next
  case (Suc k)
  then have "poll_loop E self job_id m start tr
         = poll_loop E self job_id m start (poll_trace tr (poll_request self key job_id) k)"
    by simp
  also have "\<dots> = poll_loop E self job_id m start
                    (poll_trace tr (poll_request self key job_id) k
                       @ [Time, Http (poll_request self key job_id), Sleep 2])"
    using Suc.prems by (intro poll_loop_round [OF assms(1-3)]) simp
  finally show ?case by simp
qed

lemma poll_loop_timeout:
  "\<not> time_now E tr - start < of_int m \<Longrightarrow>
   poll_loop E self job_id m start tr = Some (Inl (TimeoutError job_id m), tr @ [Time])"
  by (subst poll_loop.simps) simp

lemma poll_loop_terminal:
  assumes "requests_installed E" "api_key self = Some key" "key \<noteq> []"
    and "time_now E tr - start < of_int m"
    and "http E (tr @ [Time]) (poll_request self key job_id) = Inr response"
    and "poll_step job_id response = Some r"
  shows "poll_loop E self job_id m start tr
         = Some (r, tr @ [Time, Http (poll_request self key job_id)])"
  by (subst poll_loop.simps) (simp add: assms(4-6) make_request_get [OF assms(1-3), simplified])

lemma poll_step_completed:
  "map_of kvs ''data'' = Some (JObj d) \<Longrightarrow> map_of d ''status'' = Some (JStr ''completed'')
   \<Longrightarrow> poll_step job_id (JObj kvs) = Some (Inr (JObj d))"
  by (simp add: poll_step_def)

lemma poll_step_failed:
  "map_of kvs ''data'' = Some (JObj d) \<Longrightarrow> map_of d ''status'' = Some (JStr ''failed'')
   \<Longrightarrow> poll_step job_id (JObj kvs)
       = Some (Inl (RuntimeError job_id (case map_of kvs ''error'' of None \<Rightarrow> JNull | Some v \<Rightarrow> v)))"
  by (simp add: poll_step_def)

text \<open>
  Claim C1. \<^verbatim>\<open>_poll_background_job\<close> for a client that holds a key, after
  \<open>k\<close> rounds whose responses carried no terminal status. If the clock is still
  within \<open>max_wait\<close> of the start at the head of the next round and the response
  to its request has status \<^verbatim>\<open>completed\<close>, the call returns the data payload of
  that response; if its status is \<^verbatim>\<open>failed\<close>, the call raises the job failure
  (\<^verbatim>\<open>RuntimeError\<close> in the source) with the job id and the error the server
  reported; if the clock has reached \<open>max_wait\<close> at the head of that round, the call
  raises \<^verbatim>\<open>TimeoutError\<close>. In each case the call returns (the result is
  \<open>Some\<close>), and its trace shows one sleep of exactly 2 seconds between two consecutive
  requests. Without the argument, \<open>max_wait\<close> is 300.
\<close>

theorem poll_background_job_outcomes:
  assumes "requests_installed E" and "api_key self = Some key" and "key \<noteq> []"
    and "m = (case max_wait of None \<Rightarrow> 300 | Some x \<Rightarrow> x)"
    and "rq = poll_request self key job_id"
    and "\<forall>j<k. poll_pending E job_id m (time_now E tr) rq (poll_trace (tr @ [Time]) rq j)"
    and "T = poll_trace (tr @ [Time]) rq k"
  shows "(time_now E T - time_now E tr < of_int m \<longrightarrow>
            http E (T @ [Time]) rq = Inr (JObj kvs) \<longrightarrow>
            map_of kvs ''data'' = Some (JObj d) \<longrightarrow>
              (map_of d ''status'' = Some (JStr ''completed'') \<longrightarrow>
                 poll_background_job E self tr job_id max_wait
                 = Some (Inr (JObj d), T @ [Time, Http rq]))
            \<and> (map_of d ''status'' = Some (JStr ''failed'') \<longrightarrow>
                 poll_background_job E self tr job_id max_wait
                 = Some (Inl (RuntimeError job_id
                                (case map_of kvs ''error'' of None \<Rightarrow> JNull | Some v \<Rightarrow> v)),
                         T @ [Time, Http rq])))
       \<and> (\<not> time_now E T - time_now E tr < of_int m \<longrightarrow>
            poll_background_job E self tr job_id max_wait
            = Some (Inl (TimeoutError job_id m), T @ [Time]))
       \<and> poll_background_job E self tr job_id None
         = poll_background_job E self tr job_id (Some 300)"
proof -
  have run: "poll_background_job E self tr job_id max_wait
             = poll_loop E self job_id m (time_now E tr) T"
    unfolding poll_background_job_def assms(4) [symmetric] assms(7)
    using assms(6) unfolding assms(5)
    by (rule poll_loop_rounds [OF assms(1-3)])
  have completed: "poll_background_job E self tr job_id max_wait
                 = Some (Inr (JObj d), T @ [Time, Http rq])"
    if "time_now E T - time_now E tr < of_int m" "http E (T @ [Time]) rq = Inr (JObj kvs)"
       "map_of kvs ''data'' = Some (JObj d)" "map_of d ''status'' = Some (JStr ''completed'')"
    unfolding run assms(5)
    using that poll_step_completed [of kvs d job_id]
    by (intro poll_loop_terminal [OF assms(1-3)]) (simp_all add: assms(5))
  have failed: "poll_background_job E self tr job_id max_wait
                 = Some (Inl (RuntimeError job_id
                                (case map_of kvs ''error'' of None \<Rightarrow> JNull | Some v \<Rightarrow> v)),
                         T @ [Time, Http rq])"
    if "time_now E T - time_now E tr < of_int m" "http E (T @ [Time]) rq = Inr (JObj kvs)"
       "map_of kvs ''data'' = Some (JObj d)" "map_of d ''status'' = Some (JStr ''failed'')"
    unfolding run assms(5)
    using that poll_step_failed [of kvs d job_id]
    by (intro poll_loop_terminal [OF assms(1-3)]) (simp_all add: assms(5))
  have timeout: "poll_background_job E self tr job_id max_wait
            = Some (Inl (TimeoutError job_id m), T @ [Time])"
    if "\<not> time_now E T - time_now E tr < of_int m"
    unfolding run using that by (rule poll_loop_timeout)
  have dflt: "poll_background_job E self tr job_id None
         = poll_background_job E self tr job_id (Some 300)"
    by (simp add: poll_background_job_def)
  from completed failed timeout dflt show ?thesis by blast
qed


theorem poll_background_job_outcomes_witness:
  "poll_background_job
     (job_env 2 (JObj [(''data'', JObj [(''status'', JStr ''completed''), (''frames'', JInt 4)])]))
     job_client [] ''job-1'' None
   = Some (Inr (JObj [(''status'', JStr ''completed''), (''frames'', JInt 4)]),
           [Time, Time, Http (poll_request job_client ''secret'' ''job-1''), Sleep 2,
            Time, Http (poll_request job_client ''secret'' ''job-1'')])
   \<and> poll_background_job
     (job_env 2 (JObj [(''data'', JObj [(''status'', JStr ''failed'')]), (''error'', JStr ''boom'')]))
     job_client [] ''job-1'' None
   = Some (Inl (RuntimeError ''job-1'' (JStr ''boom'')),
           [Time, Time, Http (poll_request job_client ''secret'' ''job-1''), Sleep 2,
            Time, Http (poll_request job_client ''secret'' ''job-1'')])
   \<and> poll_background_job (job_env 100 JNull) job_client [] ''job-1'' (Some 3)
   = Some (Inl (TimeoutError ''job-1'' 3),
           [Time, Time, Http (poll_request job_client ''secret'' ''job-1''), Sleep 2,
            Time, Http (poll_request job_client ''secret'' ''job-1''), Sleep 2, Time])"
proof -
  let ?rq = "poll_request job_client ''secret'' ''job-1''"
  let ?done = "[(''data'', JObj [(''status'', JStr ''completed''), (''frames'', JInt 4)])]"
  let ?bad = "[(''data'', JObj [(''status'', JStr ''failed'')]), (''error'', JStr ''boom'')]"
  have a: "poll_background_job (job_env 2 (JObj ?done)) job_client [] ''job-1'' None
      = Some (Inr (JObj [(''status'', JStr ''completed''), (''frames'', JInt 4)]),
              [Time, Time, Http ?rq, Sleep 2, Time, Http ?rq])"
    using poll_background_job_outcomes [where E = "job_env 2 (JObj ?done)" and self = job_client
        and key = "''secret''" and m = 300 and max_wait = None and rq = ?rq and job_id = "''job-1''"
        and k = 1 and tr = "[]" and T = "[Time, Time, Http ?rq, Sleep 2]" and kvs = ?done
        and d = "[(''status'', JStr ''completed''), (''frames'', JInt 4)]"]
    by (simp add: job_env_def quiet_env_def job_client_def pending_response_def slept_def
          poll_pending_def poll_step_def)
  have b: "poll_background_job (job_env 2 (JObj ?bad)) job_client [] ''job-1'' None
      = Some (Inl (RuntimeError ''job-1'' (JStr ''boom'')),
              [Time, Time, Http ?rq, Sleep 2, Time, Http ?rq])"
    using poll_background_job_outcomes [where E = "job_env 2 (JObj ?bad)" and self = job_client
        and key = "''secret''" and m = 300 and max_wait = None and rq = ?rq and job_id = "''job-1''"
        and k = 1 and tr = "[]" and T = "[Time, Time, Http ?rq, Sleep 2]" and kvs = ?bad
        and d = "[(''status'', JStr ''failed'')]"]
    by (simp add: job_env_def quiet_env_def job_client_def pending_response_def slept_def
          poll_pending_def poll_step_def)
  have c: "poll_background_job (job_env 100 JNull) job_client [] ''job-1'' (Some 3)
      = Some (Inl (TimeoutError ''job-1'' 3),
              [Time, Time, Http ?rq, Sleep 2, Time, Http ?rq, Sleep 2, Time])"
    using poll_background_job_outcomes [where E = "job_env 100 JNull" and self = job_client
        and key = "''secret''" and m = 3 and max_wait = "Some 3" and rq = ?rq and job_id = "''job-1''"
        and k = 2 and tr = "[]" and T = "[Time, Time, Http ?rq, Sleep 2, Time, Http ?rq, Sleep 2]"
        and kvs = "[]" and d = "[]"]
    by (simp add: job_env_def quiet_env_def job_client_def pending_response_def slept_def
          poll_pending_def poll_step_def numeral_2_eq_2 All_less_Suc)
  from a b c show ?thesis by blast
qed


lemma make_request_post:
  assumes "requests_installed E" "api_key self = Some key" "key \<noteq> []"
  shows "make_request E self tr ''POST'' ''/generate-image-v2'' (Some (JObj payload)) None
         = (http E tr (image_request self key payload), tr @ [Http (image_request self key payload)])"
  using assms by (simp add: make_request_def image_request_def Let_def)

lemma generate_image_sent:
  assumes "requests_installed E" "api_key self = Some key" "key \<noteq> []"
  shows "generate_image E self tr dsc w h seed nb ri si so
         = (case http E (tr @ [Print (LiveCalling (take 50 dsc))])
                  (image_request self key (build_payload dsc w h seed nb ri si so)) of
              Inl e \<Rightarrow> Inl e
            | Inr response \<Rightarrow> extract_result response,
            tr @ [Print (LiveCalling (take 50 dsc)),
                  Http (image_request self key (build_payload dsc w h seed nb ri si so))])"
  by (simp add: generate_image_def Let_def make_request_post [OF assms] split: sum.splits)

text \<open>
  Claim C5, as stated: each optional field is in the body if and only if the caller
  provided it. The code tests \<^verbatim>\<open>if reference_images:\<close>, so a caller who
  provides the empty list gets no \<^verbatim>\<open>reference_images\<close> key.
\<close>

theorem optional_fields_iff_provided_counterexample:
  "Some ([] :: json list) \<noteq> None
   \<and> map_of (build_payload ''cute wizard'' 64 64 None False (Some []) None None) ''reference_images''
       = None"
  by (simp add: build_payload_def)

text \<open>
  Claim C5, amended. The request that \<^verbatim>\<open>generate_image\<close> sends has the body
  \<open>B\<close>, which holds \<^verbatim>\<open>description\<close> and the \<^verbatim>\<open>image_size\<close> object
  built from width and height; \<^verbatim>\<open>seed\<close> is present exactly when it is not
  \<^verbatim>\<open>None\<close> (0 included); \<^verbatim>\<open>no_background\<close> is present, with value
  \<^verbatim>\<open>True\<close>, exactly when the flag is true; \<^verbatim>\<open>reference_images\<close>,
  \<^verbatim>\<open>style_image\<close> and \<^verbatim>\<open>style_options\<close> are present exactly when
  they are provided and not empty. No key of the body has a null value and no key occurs
  twice.
\<close>

theorem payload_fields:
  assumes "requests_installed E" and "api_key self = Some key" and "key \<noteq> []"
    and "B = build_payload dsc w h seed nb ri si so"
  shows "snd (generate_image E self tr dsc w h seed nb ri si so)
           = tr @ [Print (LiveCalling (take 50 dsc)), Http (image_request self key B)]
       \<and> map_of B ''description'' = Some (JStr dsc)
       \<and> map_of B ''image_size'' = Some (JObj [(''width'', JInt w), (''height'', JInt h)])
       \<and> map_of B ''seed'' = (case seed of None \<Rightarrow> None | Some n \<Rightarrow> Some (JInt n))
       \<and> map_of B ''no_background'' = (if nb then Some (JBool True) else None)
       \<and> map_of B ''reference_images''
           = (case ri of None \<Rightarrow> None | Some xs \<Rightarrow> if xs \<noteq> [] then Some (JList xs) else None)
       \<and> map_of B ''style_image''
           = (case si of None \<Rightarrow> None | Some x \<Rightarrow> if x \<noteq> [] then Some (JObj x) else None)
       \<and> map_of B ''style_options''
           = (case so of None \<Rightarrow> None | Some x \<Rightarrow> if x \<noteq> [] then Some (JObj x) else None)
       \<and> JNull \<notin> snd ` set B
       \<and> distinct (map fst B)"
proof -
  have sent: "snd (generate_image E self tr dsc w h seed nb ri si so)
           = tr @ [Print (LiveCalling (take 50 dsc)), Http (image_request self key B)]"
    by (simp add: generate_image_sent [OF assms(1-3)] assms(4))
  have fields: "map_of B ''description'' = Some (JStr dsc)"
    "map_of B ''image_size'' = Some (JObj [(''width'', JInt w), (''height'', JInt h)])"
    "map_of B ''seed'' = (case seed of None \<Rightarrow> None | Some n \<Rightarrow> Some (JInt n))"
    "map_of B ''no_background'' = (if nb then Some (JBool True) else None)"
    "map_of B ''reference_images''
           = (case ri of None \<Rightarrow> None | Some xs \<Rightarrow> if xs \<noteq> [] then Some (JList xs) else None)"
    "map_of B ''style_image''
           = (case si of None \<Rightarrow> None | Some x \<Rightarrow> if x \<noteq> [] then Some (JObj x) else None)"
    "map_of B ''style_options''
           = (case so of None \<Rightarrow> None | Some x \<Rightarrow> if x \<noteq> [] then Some (JObj x) else None)"
    by (simp_all add: assms(4) build_payload_def map_add_def split: option.splits)
  have nonnull: "JNull \<notin> snd ` set B"
    by (auto simp: assms(4) build_payload_def split: option.splits if_splits)
  have keys: "distinct (map fst B)"
    by (simp add: assms(4) build_payload_def split: option.splits)
  from sent fields nonnull keys show ?thesis by blast
qed

theorem payload_fields_witness:
  "map_of (build_payload ''cute wizard'' 64 64 (Some 0) False (Some []) None (Some [(''color'', JBool True)]))
       ''seed'' = Some (JInt 0)
   \<and> map_of (build_payload ''cute wizard'' 64 64 (Some 0) False (Some []) None (Some [(''color'', JBool True)]))
       ''reference_images'' = None
   \<and> map_of (build_payload ''cute wizard'' 64 64 (Some 0) False (Some []) None (Some [(''color'', JBool True)]))
       ''style_options'' = Some (JObj [(''color'', JBool True)])
   \<and> build_payload ''cute wizard'' 64 64 (Some 0) False (Some []) None (Some [(''color'', JBool True)])
       = [(''description'', JStr ''cute wizard''),
          (''image_size'', JObj [(''width'', JInt 64), (''height'', JInt 64)]),
          (''seed'', JInt 0), (''style_options'', JObj [(''color'', JBool True)])]"
  using payload_fields [where E = "quiet_env JNull" and self = job_client and key = "''secret''"
      and B = "build_payload ''cute wizard'' 64 64 (Some 0) False (Some []) None (Some [(''color'', JBool True)])"
      and dsc = "''cute wizard''" and w = 64 and h = 64 and seed = "Some 0" and nb = False
      and ri = "Some []" and si = None and so = "Some [(''color'', JBool True)]" and tr = "[]"]
  by (simp add: quiet_env_def job_client_def build_payload_def)

text \<open>
  Claim C6, as stated: every successful response envelope gives a result. The default of
  \<^verbatim>\<open>response.get("data", {})\<close> applies only when the key is absent. For the
  envelope \<^verbatim>\<open>{"success": true, "data": null}\<close> the call returns
  \<^verbatim>\<open>None\<close>, and \<^verbatim>\<open>.get("images", [])\<close> on it raises
  \<^verbatim>\<open>AttributeError\<close>: the exchange has succeeded, the request is in the trace,
  and \<^verbatim>\<open>generate_image\<close> fails.
\<close>

theorem envelope_null_data_counterexample:
  "http (quiet_env (JObj [(''success'', JBool True), (''data'', JNull)]))
        [Print (LiveCalling (take 50 ''cute wizard''))]
        (image_request job_client ''secret''
           (build_payload ''cute wizard'' 64 64 None False None None None))
     = Inr (JObj [(''success'', JBool True), (''data'', JNull)])
   \<and> generate_image (quiet_env (JObj [(''success'', JBool True), (''data'', JNull)]))
        job_client [] ''cute wizard'' 64 64 None False None None None
     = (Inl AttributeError,
        [Print (LiveCalling ''cute wizard''),
         Http (image_request job_client ''secret''
                 (build_payload ''cute wizard'' 64 64 None False None None None))])"
  by (simp add: generate_image_def make_request_def quiet_env_def job_client_def
        image_request_def extract_result_def Let_def)

text \<open>
  Claim C6, amended. When the exchange succeeds with an envelope that is an object
  \<open>kvs\<close> whose \<^verbatim>\<open>data\<close> is missing or an object \<open>d\<close>,
  \<^verbatim>\<open>generate_image\<close> returns a result: its \<^verbatim>\<open>images\<close> is
  \<^verbatim>\<open>data.images\<close>, or the empty list when \<^verbatim>\<open>data\<close> or
  \<^verbatim>\<open>data.images\<close> is missing; its \<^verbatim>\<open>usage\<close> is the envelope's, or
  the empty mapping when missing; its \<^verbatim>\<open>success\<close> is the envelope's flag, or
  \<^verbatim>\<open>False\<close> when missing. No missing key causes a failure.
\<close>

theorem envelope_extracted:
  assumes "requests_installed E" and "api_key self = Some key" and "key \<noteq> []"
    and "http E (tr @ [Print (LiveCalling (take 50 dsc))])
           (image_request self key (build_payload dsc w h seed nb ri si so)) = Inr (JObj kvs)"
    and "map_of kvs ''data'' = None \<or> map_of kvs ''data'' = Some (JObj d)"
  shows "fst (generate_image E self tr dsc w h seed nb ri si so)
         = Inr (JObj
             [(''images'',
                 (case map_of kvs ''data'' of
                    None \<Rightarrow> JList []
                  | Some x \<Rightarrow> (case map_of d ''images'' of None \<Rightarrow> JList [] | Some v \<Rightarrow> v))),
              (''usage'', (case map_of kvs ''usage'' of None \<Rightarrow> JObj [] | Some v \<Rightarrow> v)),
              (''success'', (case map_of kvs ''success'' of None \<Rightarrow> JBool False | Some v \<Rightarrow> v))])"
  using assms(4,5)
  by (auto simp: generate_image_sent [OF assms(1-3)] extract_result_def split: option.splits)

theorem envelope_extracted_witness:
  "fst (generate_image
          (quiet_env (JObj [(''success'', JBool True),
                            (''data'', JObj [(''images'', JList [JStr ''aGVsbG8='']), (''id'', JInt 7)])]))
          job_client [] ''cute wizard'' 64 64 None False None None None)
     = Inr (JObj [(''images'', JList [JStr ''aGVsbG8='']), (''usage'', JObj []),
                  (''success'', JBool True)])
   \<and> fst (generate_image (quiet_env (JObj [(''usage'', JObj [(''usd'', JInt 1)])]))
          job_client [] ''cute wizard'' 64 64 None False None None None)
     = Inr (JObj [(''images'', JList []), (''usage'', JObj [(''usd'', JInt 1)]),
                  (''success'', JBool False)])"
proof -
  let ?full = "[(''success'', JBool True),
                (''data'', JObj [(''images'', JList [JStr ''aGVsbG8='']), (''id'', JInt 7)])]"
  let ?bare = "[(''usage'', JObj [(''usd'', JInt 1)])]"
  have a: "fst (generate_image (quiet_env (JObj ?full))
          job_client [] ''cute wizard'' 64 64 None False None None None)
     = Inr (JObj [(''images'', JList [JStr ''aGVsbG8='']), (''usage'', JObj []),
                  (''success'', JBool True)])"
    using envelope_extracted [where E = "quiet_env (JObj ?full)" and self = job_client
        and key = "''secret''" and tr = "[]" and dsc = "''cute wizard''" and w = 64 and h = 64
        and seed = None and nb = False and ri = None and si = None and so = None
        and kvs = ?full and d = "[(''images'', JList [JStr ''aGVsbG8='']), (''id'', JInt 7)]"]
    by (simp add: quiet_env_def job_client_def)
  have b: "fst (generate_image (quiet_env (JObj ?bare))
          job_client [] ''cute wizard'' 64 64 None False None None None)
     = Inr (JObj [(''images'', JList []), (''usage'', JObj [(''usd'', JInt 1)]),
                  (''success'', JBool False)])"
    using envelope_extracted [where E = "quiet_env (JObj ?bare)" and self = job_client
        and key = "''secret''" and tr = "[]" and dsc = "''cute wizard''" and w = 64 and h = 64
        and seed = None and nb = False and ri = None and si = None and so = None
        and kvs = ?bare and d = "[]"]
    by (simp add: quiet_env_def job_client_def)
  from a b show ?thesis by blast
qed

section \<open>Properties of the batch driver\<close>

lemma written_manifests_append:
  "written_manifests (a @ b) = written_manifests a @ written_manifests b"
  by (induction a rule: written_manifests.induct) simp_all

lemma started_items_append:
  "started_items (a @ b) = started_items a @ started_items b"
  by (induction a rule: started_items.induct) simp_all

lemma summaries_append:
  "summaries (a @ b) = summaries a @ summaries b"
  by (induction a rule: summaries.induct) simp_all

lemma written_files_append:
  "written_files (a @ b) = written_files a @ written_files b"
  by (induction a rule: written_files.induct) simp_all

lemma item_event_projections:
  "list_all item_event ext \<Longrightarrow>
     written_manifests ext = [] \<and> started_items ext = [] \<and> summaries ext = []"
proof (induction ext)
  case Nil
  then show ?case by simp
next
  case (Cons e ext)
  then have "item_event e" and "list_all item_event ext" by simp_all
  with Cons.IH show ?case by (cases e rule: item_event.cases) simp_all
qed

lemma make_request_trace:
  "\<exists>ext. snd (make_request E cl tr method endpoint data prms) = tr @ ext
         \<and> list_all item_event ext \<and> written_files ext = []"
  by (simp add: make_request_def Let_def split: option.splits)

lemma generate_image_trace:
  "\<exists>ext. snd (generate_image E cl tr dsc w h seed nb ri si so) = tr @ ext
         \<and> list_all item_event ext \<and> written_files ext = []"
proof -
  let ?tr0 = "tr @ [Print (LiveCalling (take 50 dsc))]"
  let ?p = "Some (JObj (build_payload dsc w h seed nb ri si so))"
  obtain ext where e: "snd (make_request E cl ?tr0 ''POST'' ''/generate-image-v2'' ?p None) = ?tr0 @ ext"
    and l: "list_all item_event ext" "written_files ext = []"
    using make_request_trace by blast
  have "snd (generate_image E cl tr dsc w h seed nb ri si so)
        = snd (make_request E cl ?tr0 ''POST'' ''/generate-image-v2'' ?p None)"
    by (simp add: generate_image_def Let_def split: prod.splits sum.splits)
  then have "snd (generate_image E cl tr dsc w h seed nb ri si so)
        = tr @ (Print (LiveCalling (take 50 dsc)) # ext)"
    using e by simp
  moreover have "list_all item_event (Print (LiveCalling (take 50 dsc)) # ext)"
    "written_files (Print (LiveCalling (take 50 dsc)) # ext) = []"
    using l by simp_all
  ultimately show ?thesis by blast
qed

lemma save_base64_image_trace:
  "\<exists>ext. snd (save_base64_image E tr b p) = tr @ ext \<and> list_all item_event ext"
  by (simp add: save_base64_image_def write_image_def Let_def split: sum.splits option.splits)

lemma extract_result_shape:
  "extract_result r = Inr response \<Longrightarrow>
   \<exists>imgs u s. response = JObj [(''images'', imgs), (''usage'', u), (''success'', s)]"
  by (auto simp: extract_result_def split: sum.splits)

lemma call_generate_shape:
  assumes "call_generate E cl tr c = (Inr response, tr1)"
  shows "\<exists>imgs. py_get response ''images'' JNull = Inr imgs
               \<and> py_getitem response ''images'' = Inr imgs"
proof -
  from assms obtain r where "extract_result r = Inr response"
    by (auto simp: call_generate_def generate_image_def Let_def split: prod.splits sum.splits)
  then obtain imgs u s where "response = JObj [(''images'', imgs), (''usage'', u), (''success'', s)]"
    using extract_result_shape by blast
  then show ?thesis by simp
qed

lemma call_generate_trace:
  "\<exists>ext. snd (call_generate E cl tr c) = tr @ item_header c @ ext
         \<and> list_all item_event ext \<and> written_files ext = []"
  using generate_image_trace [of E cl "tr @ item_header c"]
  by (simp add: call_generate_def)

lemma py_index0_truthy: "py_index0 x = Inr b \<Longrightarrow> truthy x"
  by (erule py_index0.elims) simp_all

lemma save_ok_iff:
  "fst (save_base64_image E tr b p)
   = (case decode_image E b of Inl e \<Rightarrow> False
      | Inr bs \<Rightarrow> fst (write_image E tr p bs) = None)"
  by (simp add: save_base64_image_def split: sum.splits prod.splits option.splits)


lemma process_item_result:
  "process_item E cl st c =
     (if item_succeeded E cl st c then
        st\<lparr>trace := trace (process_item E cl st c),
           metadata := (metadata st)\<lparr>images := images (metadata st) @
             [\<lparr> entry_id = cfg_id c, filename = png_name c,
                entry_description = cfg_description c,
                entry_width = width_of c, entry_height = height_of c,
                entry_seed = cfg_seed c,
                entry_generated_at = now_iso E (trace (process_item E cl st c)) \<rparr>]\<rparr>,
           successful := successful st + 1\<rparr>
      else st\<lparr>trace := trace (process_item E cl st c), failed := failed st + 1\<rparr>)"
proof (cases "call_generate E cl (trace st) c")
  case (Pair r tr1)
  show ?thesis
  proof (cases r)
    case (Inl e)
    with Pair show ?thesis
      by (simp add: process_item_def item_succeeded_def item_raised_def)
  next
    case (Inr response)
    with Pair have cg: "call_generate E cl (trace st) c = (Inr response, tr1)" by simp
    then obtain imgs where g: "py_get response ''images'' JNull = Inr imgs"
      and gi: "py_getitem response ''images'' = Inr imgs"
      using call_generate_shape by blast
    show ?thesis
    proof (cases "py_index0 imgs")
      case (Inl e)
      then show ?thesis
        by (simp add: process_item_def item_succeeded_def item_raised_def cg g gi)
    next
      case (Inr b)
      then have t: "truthy imgs" by (rule py_index0_truthy)
      obtain ok tr2 where sv: "save_base64_image E tr1 b (output_path_of E c) = (ok, tr2)"
        by (cases "save_base64_image E tr1 b (output_path_of E c)")
      have "item_succeeded E cl st c = fst (save_base64_image E tr1 b (output_path_of E c))"
        by (simp add: item_succeeded_def cg g Inr save_ok_iff split: sum.splits)
      then have ok: "item_succeeded E cl st c = ok" by (simp add: sv)
      show ?thesis
        by (cases ok) (simp_all add: ok process_item_def cg g gi Inr t sv Let_def)
    qed
  qed
qed

lemma process_item_trace:
  "\<exists>ext. trace (process_item E cl st c) = trace st @ item_header c @ ext
         \<and> list_all item_event ext"
proof -
  obtain r tr1 where cg: "call_generate E cl (trace st) c = (r, tr1)"
    by (cases "call_generate E cl (trace st) c")
  obtain ext1 where e1: "tr1 = trace st @ item_header c @ ext1" and l1: "list_all item_event ext1"
    using call_generate_trace [of E cl "trace st" c] cg by auto
  show ?thesis
  proof (cases r)
    case (Inl e)
    then have "trace (process_item E cl st c)
               = trace st @ item_header c @ (ext1 @ [Print (ErrorGenerating (cfg_id c) e)])"
      by (simp add: process_item_def item_raised_def cg e1)
    moreover have "list_all item_event (ext1 @ [Print (ErrorGenerating (cfg_id c) e)])"
      using l1 by simp
    ultimately show ?thesis by blast
  next
    case (Inr response)
    then obtain imgs where g: "py_get response ''images'' JNull = Inr imgs"
      and gi: "py_getitem response ''images'' = Inr imgs"
      using call_generate_shape cg by blast
    show ?thesis
    proof (cases "truthy imgs")
      case False
      then have "trace (process_item E cl st c)
               = trace st @ item_header c @ (ext1 @ [Print (ErrorNoImages (cfg_id c))])"
        by (simp add: process_item_def cg Inr g e1)
      moreover have "list_all item_event (ext1 @ [Print (ErrorNoImages (cfg_id c))])"
        using l1 by simp
      ultimately show ?thesis by blast
    next
      case True
      show ?thesis
      proof (cases "py_index0 imgs")
        case (Inl e)
        then have "trace (process_item E cl st c)
               = trace st @ item_header c @ (ext1 @ [Print (ErrorGenerating (cfg_id c) e)])"
          by (simp add: process_item_def item_raised_def cg Inr g gi True e1)
        moreover have "list_all item_event (ext1 @ [Print (ErrorGenerating (cfg_id c) e)])"
          using l1 by simp
        ultimately show ?thesis by blast
      next
        case b: (Inr b)
        obtain ok tr2 where sv: "save_base64_image E tr1 b (output_path_of E c) = (ok, tr2)"
          by (cases "save_base64_image E tr1 b (output_path_of E c)")
        obtain ext2 where e2: "tr2 = tr1 @ ext2" and l2: "list_all item_event ext2"
          using save_base64_image_trace [of E tr1 b "output_path_of E c"] sv by auto
        let ?last = "if ok then Print (Saved (png_name c)) else Print (ErrorFailedToSave (cfg_id c))"
        have "trace (process_item E cl st c) = tr2 @ [?last]"
          by (cases ok) (simp_all add: process_item_def cg Inr g gi True b sv Let_def)
        then have "trace (process_item E cl st c)
               = trace st @ item_header c @ (ext1 @ ext2 @ [?last])"
          by (simp add: e1 e2)
        moreover have "list_all item_event (ext1 @ ext2 @ [?last])"
          using l1 l2 by simp
        ultimately show ?thesis by blast
      qed
    qed
  qed
qed

lemma process_item_projections:
  "written_manifests (trace (process_item E cl st c)) = written_manifests (trace st)"
  "started_items (trace (process_item E cl st c)) = started_items (trace st) @ [cfg_id c]"
  "summaries (trace (process_item E cl st c)) = summaries (trace st)"
proof -
  obtain ext where e: "trace (process_item E cl st c) = trace st @ item_header c @ ext"
    and l: "list_all item_event ext"
    using process_item_trace by blast
  note p = item_event_projections [OF l]
  show "written_manifests (trace (process_item E cl st c)) = written_manifests (trace st)"
    by (simp add: e written_manifests_append p item_header_def)
  show "started_items (trace (process_item E cl st c)) = started_items (trace st) @ [cfg_id c]"
    by (simp add: e started_items_append p item_header_def)
  show "summaries (trace (process_item E cl st c)) = summaries (trace st)"
    by (simp add: e summaries_append p item_header_def)
qed

lemma gallery_loop_projections:
  "written_manifests (trace (gallery_loop E cl st cfgs)) = written_manifests (trace st)"
  "started_items (trace (gallery_loop E cl st cfgs)) = started_items (trace st) @ map cfg_id cfgs"
  "summaries (trace (gallery_loop E cl st cfgs)) = summaries (trace st)"
  by (induction cfgs arbitrary: st) (simp_all add: process_item_projections)

lemma process_item_counters:
  "successful (process_item E cl st c) = successful st + (if item_succeeded E cl st c then 1 else 0)"
  "failed (process_item E cl st c) = failed st + (if item_succeeded E cl st c then 0 else 1)"
  "map entry_fields (images (metadata (process_item E cl st c)))
   = map entry_fields (images (metadata st))
     @ (if item_succeeded E cl st c then [expected_entry c] else [])"
  by (subst process_item_result, simp add: entry_fields_def expected_entry_def)+

lemma succeeded_items_Cons:
  "succeeded_items E cl st (c # cs)
   = (if item_succeeded E cl st c then [c] else [])
     @ succeeded_items E cl (process_item E cl st c) cs"
  by (simp add: succeeded_items_def)

lemma gallery_loop_counters:
  "successful (gallery_loop E cl st cfgs)
   = successful st + int (length (succeeded_items E cl st cfgs))"
  "failed (gallery_loop E cl st cfgs)
   = failed st + int (length cfgs) - int (length (succeeded_items E cl st cfgs))"
  "map entry_fields (images (metadata (gallery_loop E cl st cfgs)))
   = map entry_fields (images (metadata st)) @ map expected_entry (succeeded_items E cl st cfgs)"
  by (induction cfgs arbitrary: st)
     (simp_all add: process_item_counters succeeded_items_Cons, simp_all add: succeeded_items_def)


lemma gallery_loop_append:
  "gallery_loop E cl st (pre @ cs) = gallery_loop E cl (gallery_loop E cl st pre) cs"
  by (induction pre arbitrary: st) simp_all

lemma check_balance_projections:
  "written_manifests (check_balance E cl tr) = written_manifests tr"
  "started_items (check_balance E cl tr) = started_items tr"
  "summaries (check_balance E cl tr) = summaries tr"
proof -
  obtain ext where e: "snd (make_request E cl (tr @ [Print CheckingBalance]) ''GET'' ''/balance'' None None)
        = (tr @ [Print CheckingBalance]) @ ext" and l: "list_all item_event ext"
    using make_request_trace by blast
  have "\<exists>m. check_balance E cl tr = tr @ [Print CheckingBalance] @ ext @ [Print m]
          \<and> ((\<exists>b. m = Balance b) \<or> (\<exists>x. m = WarningBalance x))"
    using e by (auto simp: check_balance_def get_balance_def split: prod.splits sum.splits)
  then obtain m where c: "check_balance E cl tr = tr @ [Print CheckingBalance] @ ext @ [Print m]"
    and m: "(\<exists>b. m = Balance b) \<or> (\<exists>x. m = WarningBalance x)" by blast
  note p = item_event_projections [OF l]
  show "written_manifests (check_balance E cl tr) = written_manifests tr"
    using m by (auto simp: c written_manifests_append p)
  show "started_items (check_balance E cl tr) = started_items tr"
    using m by (auto simp: c started_items_append p)
  show "summaries (check_balance E cl tr) = summaries tr"
    using m by (auto simp: c summaries_append p)
qed

lemma loop_start_fields:
  "successful (loop_start E k) = 0" "failed (loop_start E k) = 0"
  "images (metadata (loop_start E k)) = []"
  "written_manifests (trace (loop_start E k)) = []"
  "started_items (trace (loop_start E k)) = []"
  "summaries (trace (loop_start E k)) = []"
  by (simp_all add: loop_start_def init_state_def check_balance_projections)

lemma finish_projections:
  "written_manifests (snd (finish E st n)) = written_manifests (trace st) @ [metadata st]"
  "started_items (snd (finish E st n)) = started_items (trace st)"
  by (simp_all add: finish_def Let_def written_manifests_append started_items_append
        split: option.splits)

lemma finish_completed:
  "finish E st n = (Completed, tr) \<Longrightarrow>
   summaries tr = summaries (trace st) @ [(successful st, failed st, n)]"
  by (auto simp: finish_def Let_def summaries_append split: option.splits)

lemma run_reaches_finish:
  assumes "environ E ''PIXELLAB_API_KEY'' = Some k" "k \<noteq> []" "mkdir E [] (IMAGES_DIR E) = None"
  shows "generate_gallery_on E cfgs = finish E (loop_end E k cfgs) (length cfgs)"
  using assms by (simp add: generate_gallery_on_def)

lemma subseq_succeeded_items: "subseq (succeeded_items E cl st cfgs) cfgs"
  by (induction cfgs arbitrary: st) (auto simp: succeeded_items_Cons, simp add: succeeded_items_def)


text \<open>The run in the concrete world of the driver, evaluated.\<close>

lemma gallery_env_succeeded:
  "succeeded_items gallery_env (driver_client gallery_env ''secret'')
     (loop_start gallery_env ''secret'') GALLERY_IMAGES
   = [GALLERY_IMAGES ! 0, GALLERY_IMAGES ! 1, GALLERY_IMAGES ! 3, GALLERY_IMAGES ! 5]"
  by code_simp


lemma gallery_env_ready:
  "environ gallery_env ''PIXELLAB_API_KEY'' = Some ''secret''"
  "''secret'' \<noteq> []"
  "mkdir gallery_env [] (IMAGES_DIR gallery_env) = None"
  by (simp_all add: gallery_env_def quiet_env_def)

lemma gallery_env_completed: "fst (generate_gallery_on gallery_env GALLERY_IMAGES) = Completed"
  by code_simp

lemma gallery_env_summaries:
  "summaries (snd (generate_gallery_on gallery_env GALLERY_IMAGES)) = [(4, 2, 6)]"
  by code_simp

lemma gallery_env_balance:
  "get_balance gallery_env (driver_client gallery_env ''secret'')
     [Mkdir (IMAGES_DIR gallery_env), Print CheckingBalance]
   = (Inl (RequestError ''503''),
      [Mkdir (IMAGES_DIR gallery_env), Print CheckingBalance,
       Http \<lparr> rmethod = ''GET'', url = ''https://api.pixellab.ai/v2/balance'',
              authorization = ''Bearer secret'', content_type = ''application/json'',
              params = None, body = None \<rparr>])"
  by code_simp

lemma gallery_env_dragon:
  "fst (call_generate gallery_env (driver_client gallery_env ''secret'') (trace after_two)
          (GALLERY_IMAGES ! 2))
   = Inr (JObj [(''images'', JList []), (''usage'', JObj []), (''success'', JBool True)])"
  by code_simp

text \<open>
  Claim C2. In a run that finds the key and creates the images directory, the driver
  writes one manifest, after the loop. Its entries are, in this order, those of the
  requests \<open>ok\<close> for which the three stages all succeeded
  (\<^verbatim>\<open>generate_image\<close> returned a first image, the image decoded, the file was
  opened and written): one entry each, with the id, file name, description, width,
  height and seed of the request. \<open>ok\<close> is a subsequence of the input list, so the
  order of the input is kept and a request that failed has no entry. The witness is a run
  over \<open>GALLERY_IMAGES\<close> with four successes and two failures.
\<close>

theorem manifest_entries:
  assumes "environ E ''PIXELLAB_API_KEY'' = Some k" and "k \<noteq> []"
    and "mkdir E [] (IMAGES_DIR E) = None"
    and "ok = succeeded_items E (driver_client E k) (loop_start E k) cfgs"
  shows "\<exists>m. written_manifests (snd (generate_gallery_on E cfgs)) = [m]
           \<and> map entry_fields (images m) = map expected_entry ok
           \<and> length (images m) = length ok
           \<and> subseq ok cfgs"
proof -
  let ?L = "loop_end E k cfgs"
  have "written_manifests (snd (generate_gallery_on E cfgs)) = [metadata ?L]"
    by (simp add: run_reaches_finish [OF assms(1-3)] finish_projections loop_end_def
          gallery_loop_projections loop_start_fields)
  moreover have e: "map entry_fields (images (metadata ?L)) = map expected_entry ok"
    by (simp add: loop_end_def gallery_loop_counters loop_start_fields assms(4))
  moreover have "length (images (metadata ?L)) = length ok"
    using arg_cong [OF e, of length] by simp
  moreover have "subseq ok cfgs"
    unfolding assms(4) by (rule subseq_succeeded_items)
  ultimately show ?thesis by blast
qed

theorem manifest_entries_witness:
  "map (\<lambda>m. map entry_id (images m)) (written_manifests (snd (generate_gallery gallery_env)))
     = [[''wizard'', ''knight'', ''spaceship'', ''treasure'']]
   \<and> map (\<lambda>m. map entry_seed (images m)) (written_manifests (snd (generate_gallery gallery_env)))
     = [[Some 42, Some 123, Some 789, Some 202]]"
proof -
  let ?ok = "[GALLERY_IMAGES ! 0, GALLERY_IMAGES ! 1, GALLERY_IMAGES ! 3, GALLERY_IMAGES ! 5]"
  from manifest_entries [OF gallery_env_ready gallery_env_succeeded [symmetric]]
  obtain m where w: "written_manifests (snd (generate_gallery_on gallery_env GALLERY_IMAGES)) = [m]"
    and e: "map entry_fields (images m) = map expected_entry ?ok"
    by blast
  have "map entry_id (images m) = map (fst \<circ> entry_fields) (images m)"
    by (simp add: entry_fields_def)
  also have "\<dots> = map fst (map expected_entry ?ok)"
    unfolding e [symmetric] by simp
  also have "\<dots> = [''wizard'', ''knight'', ''spaceship'', ''treasure'']"
    by (simp add: expected_entry_def GALLERY_IMAGES_def)
  finally have ids: "map entry_id (images m) = [''wizard'', ''knight'', ''spaceship'', ''treasure'']" .
  have "map entry_seed (images m) = map (\<lambda>(i, n, d, w, h, s). s) (map entry_fields (images m))"
    by (simp add: entry_fields_def)
  also have "\<dots> = [Some 42, Some 123, Some 789, Some 202]"
    unfolding e by (simp add: expected_entry_def GALLERY_IMAGES_def)
  finally have seeds: "map entry_seed (images m) = [Some 42, Some 123, Some 789, Some 202]" .
  from w ids seeds show ?thesis by (simp add: generate_gallery_def)
qed

text \<open>
  Claim C4. Let the loop have reached the state \<open>st\<close> after the requests \<open>pre\<close>,
  and let \<^verbatim>\<open>generate_image\<close> return for the next request \<open>c\<close> a result whose
  \<^verbatim>\<open>images\<close> is the empty list. Then the iteration only prints the error and
  adds one to \<open>failed\<close>: it opens and writes no file, leaves the manifest and
  \<open>successful\<close> as they were, and the loop goes on with the requests \<open>rest\<close>
  after \<open>c\<close>, each of which is started.
\<close>

theorem empty_images_item_fails:
  assumes "st = gallery_loop E cl st0 pre"
    and "call_generate E cl (trace st) c = (Inr response, tr1)"
    and "py_get response ''images'' JNull = Inr (JList [])"
  shows "process_item E cl st c
           = st\<lparr>trace := tr1 @ [Print (ErrorNoImages (cfg_id c))], failed := failed st + 1\<rparr>
       \<and> written_files (trace (process_item E cl st c)) = written_files (trace st)
       \<and> metadata (process_item E cl st c) = metadata st
       \<and> successful (process_item E cl st c) = successful st
       \<and> failed (process_item E cl st c) = failed st + 1
       \<and> gallery_loop E cl st0 (pre @ c # rest) = gallery_loop E cl (process_item E cl st c) rest
       \<and> started_items (trace (gallery_loop E cl st0 (pre @ c # rest)))
           = started_items (trace st0) @ map cfg_id pre @ cfg_id c # map cfg_id rest"
proof -
  have step: "process_item E cl st c
           = st\<lparr>trace := tr1 @ [Print (ErrorNoImages (cfg_id c))], failed := failed st + 1\<rparr>"
    by (simp add: process_item_def assms(2,3))
  obtain ext where "tr1 = trace st @ item_header c @ ext" and "written_files ext = []"
    using call_generate_trace [of E cl "trace st" c] assms(2) by auto
  then have files: "written_files (trace (process_item E cl st c)) = written_files (trace st)"
    by (simp add: step written_files_append item_header_def)
  have loop: "gallery_loop E cl st0 (pre @ c # rest) = gallery_loop E cl (process_item E cl st c) rest"
    by (simp add: gallery_loop_append assms(1))
  have started: "started_items (trace (gallery_loop E cl st0 (pre @ c # rest)))
           = started_items (trace st0) @ map cfg_id pre @ cfg_id c # map cfg_id rest"
    by (simp add: gallery_loop_projections)
  from files loop started show ?thesis
    by (simp add: step)
qed

theorem empty_images_item_fails_witness:
  "py_get (JObj [(''images'', JList []), (''usage'', JObj []), (''success'', JBool True)])
      ''images'' JNull = Inr (JList [])
   \<and> written_files (trace (process_item gallery_env (driver_client gallery_env ''secret'')
                               after_two (GALLERY_IMAGES ! 2)))
       = written_files (trace after_two)
   \<and> metadata (process_item gallery_env (driver_client gallery_env ''secret'')
                  after_two (GALLERY_IMAGES ! 2)) = metadata after_two
   \<and> failed (process_item gallery_env (driver_client gallery_env ''secret'')
                after_two (GALLERY_IMAGES ! 2)) = failed after_two + 1
   \<and> started_items (trace (gallery_loop gallery_env (driver_client gallery_env ''secret'')
         (loop_start gallery_env ''secret'')
         (take 2 GALLERY_IMAGES @ GALLERY_IMAGES ! 2 # drop 3 GALLERY_IMAGES)))
       = [''wizard'', ''knight'', ''dragon'', ''spaceship'', ''robot'', ''treasure'']"
proof -
  let ?cl = "driver_client gallery_env ''secret''"
  let ?r = "JObj [(''images'', JList []), (''usage'', JObj []), (''success'', JBool True)]"
  have h1: "after_two = gallery_loop gallery_env ?cl (loop_start gallery_env ''secret'')
                          (take 2 GALLERY_IMAGES)"
    by (rule after_two_def)
  have h2: "call_generate gallery_env ?cl (trace after_two) (GALLERY_IMAGES ! 2)
            = (Inr ?r, snd (call_generate gallery_env ?cl (trace after_two) (GALLERY_IMAGES ! 2)))"
    using gallery_env_dragon by (simp add: prod_eq_iff)
  have h3: "py_get ?r ''images'' JNull = Inr (JList [])"
    by simp
  note w = empty_images_item_fails [OF h1 h2 h3, of "drop 3 GALLERY_IMAGES"]
  from w have "started_items (trace (gallery_loop gallery_env ?cl (loop_start gallery_env ''secret'')
         (take 2 GALLERY_IMAGES @ GALLERY_IMAGES ! 2 # drop 3 GALLERY_IMAGES)))
       = started_items (trace (loop_start gallery_env ''secret''))
         @ map cfg_id (take 2 GALLERY_IMAGES) @ cfg_id (GALLERY_IMAGES ! 2)
           # map cfg_id (drop 3 GALLERY_IMAGES)"
    by blast
  then have s: "started_items (trace (gallery_loop gallery_env ?cl (loop_start gallery_env ''secret'')
         (take 2 GALLERY_IMAGES @ GALLERY_IMAGES ! 2 # drop 3 GALLERY_IMAGES)))
       = [''wizard'', ''knight'', ''dragon'', ''spaceship'', ''robot'', ''treasure'']"
    by (simp add: loop_start_fields GALLERY_IMAGES_def)
  from w h3 s show ?thesis by blast
qed

text \<open>
  Claim C7. When \<^verbatim>\<open>PIXELLAB_API_KEY\<close> is not in the environment,
  \<^verbatim>\<open>generate_gallery\<close> (which takes no key argument) ends with
  \<^verbatim>\<open>sys.exit(1)\<close> after printing the error: the exit status is not zero and
  the trace of the run holds no network call and no file-system operation.
\<close>

theorem missing_key_aborts:
  assumes "environ E ''PIXELLAB_API_KEY'' = None"
  shows "generate_gallery E = (SysExit 1, [Print ErrorNoApiKey])
       \<and> (1 :: int) \<noteq> 0
       \<and> filter is_http (snd (generate_gallery E)) = []
       \<and> filter is_fs (snd (generate_gallery E)) = []"
  using assms by (simp add: generate_gallery_def generate_gallery_on_def)

theorem missing_key_aborts_witness:
  "environ no_key_env ''PIXELLAB_API_KEY'' = None
   \<and> generate_gallery no_key_env = (SysExit 1, [Print ErrorNoApiKey])"
proof -
  have h: "environ no_key_env ''PIXELLAB_API_KEY'' = None"
    by (simp add: no_key_env_def quiet_env_def)
  from h missing_key_aborts [OF h] show ?thesis by blast
qed


text \<open>
  Claim C8. In a run that finds the key and creates the images directory, let the
  balance check end with \<open>b\<close>, a value or any exception. Then \<open>b\<close> is printed
  (as a warning when it is an exception) and nothing else comes of it: the loop starts
  with both counters at 0, the run goes through the loop and the final write, whose
  outcome alone decides how the run ends, every request of the list is started, and the
  final \<open>failed\<close> counts exactly the requests that did not succeed.
\<close>

theorem balance_check_swallowed:
  assumes "environ E ''PIXELLAB_API_KEY'' = Some k" and "k \<noteq> []"
    and "mkdir E [] (IMAGES_DIR E) = None"
    and "get_balance E (driver_client E k) [Mkdir (IMAGES_DIR E), Print CheckingBalance] = (b, tr1)"
  shows "trace (loop_start E k)
           = tr1 @ [Print (case b of Inl e \<Rightarrow> WarningBalance e | Inr v \<Rightarrow> Balance v)]
       \<and> successful (loop_start E k) = 0
       \<and> failed (loop_start E k) = 0
       \<and> generate_gallery_on E cfgs
           = finish E (gallery_loop E (driver_client E k) (loop_start E k) cfgs) (length cfgs)
       \<and> fst (generate_gallery_on E cfgs)
           = (case dump_manifest E (trace (loop_end E k cfgs)) (METADATA_FILE E)
                     (metadata (loop_end E k cfgs)) of
                None \<Rightarrow> Completed
              | Some e \<Rightarrow> Uncaught e)
       \<and> started_items (snd (generate_gallery_on E cfgs)) = map cfg_id cfgs
       \<and> failed (loop_end E k cfgs)
           = int (length cfgs)
             - int (length (succeeded_items E (driver_client E k) (loop_start E k) cfgs))"
proof -
  have logged: "trace (loop_start E k)
           = tr1 @ [Print (case b of Inl e \<Rightarrow> WarningBalance e | Inr v \<Rightarrow> Balance v)]"
    using assms(4) by (simp add: loop_start_def init_state_def check_balance_def split: sum.splits)
  have run: "generate_gallery_on E cfgs
           = finish E (gallery_loop E (driver_client E k) (loop_start E k) cfgs) (length cfgs)"
    using run_reaches_finish [OF assms(1-3)] by (simp add: loop_end_def)
  have out: "fst (generate_gallery_on E cfgs)
           = (case dump_manifest E (trace (loop_end E k cfgs)) (METADATA_FILE E)
                     (metadata (loop_end E k cfgs)) of
                None \<Rightarrow> Completed
              | Some e \<Rightarrow> Uncaught e)"
    by (simp add: run_reaches_finish [OF assms(1-3)] finish_def Let_def split: option.splits)
  have started: "started_items (snd (generate_gallery_on E cfgs)) = map cfg_id cfgs"
    by (simp add: run_reaches_finish [OF assms(1-3)] finish_projections loop_end_def
          gallery_loop_projections loop_start_fields)
  have tally: "failed (loop_end E k cfgs)
           = int (length cfgs)
             - int (length (succeeded_items E (driver_client E k) (loop_start E k) cfgs))"
    by (simp add: loop_end_def gallery_loop_counters loop_start_fields)
  from logged run out started tally show ?thesis
    by (simp add: loop_start_fields)
qed

theorem balance_check_swallowed_witness:
  "fst (get_balance gallery_env (driver_client gallery_env ''secret'')
          [Mkdir (IMAGES_DIR gallery_env), Print CheckingBalance]) = Inl (RequestError ''503'')
   \<and> last (trace (loop_start gallery_env ''secret'')) = Print (WarningBalance (RequestError ''503''))
   \<and> failed (loop_start gallery_env ''secret'') = 0
   \<and> fst (generate_gallery gallery_env) = Completed
   \<and> started_items (snd (generate_gallery gallery_env))
       = [''wizard'', ''knight'', ''dragon'', ''spaceship'', ''robot'', ''treasure'']
   \<and> failed (loop_end gallery_env ''secret'' GALLERY_IMAGES) = 2"
proof -
  note w = balance_check_swallowed [OF gallery_env_ready gallery_env_balance, of GALLERY_IMAGES]
  have a: "fst (get_balance gallery_env (driver_client gallery_env ''secret'')
          [Mkdir (IMAGES_DIR gallery_env), Print CheckingBalance]) = Inl (RequestError ''503'')"
    by (simp add: gallery_env_balance)
  have n: "length GALLERY_IMAGES = 6"
    "map cfg_id GALLERY_IMAGES = [''wizard'', ''knight'', ''dragon'', ''spaceship'', ''robot'', ''treasure'']"
    by (simp_all add: GALLERY_IMAGES_def)
  from w have "trace (loop_start gallery_env ''secret'')
      = [Mkdir (IMAGES_DIR gallery_env), Print CheckingBalance,
         Http \<lparr> rmethod = ''GET'', url = ''https://api.pixellab.ai/v2/balance'',
                authorization = ''Bearer secret'', content_type = ''application/json'',
                params = None, body = None \<rparr>]
        @ [Print (case Inl (RequestError ''503'') of Inl e \<Rightarrow> WarningBalance e | Inr v \<Rightarrow> Balance v)]"
    by blast
  then have b: "last (trace (loop_start gallery_env ''secret'')) = Print (WarningBalance (RequestError ''503''))"
    by simp
  from w have c: "failed (loop_start gallery_env ''secret'') = 0"
    by blast
  from w have "started_items (snd (generate_gallery_on gallery_env GALLERY_IMAGES))
      = map cfg_id GALLERY_IMAGES"
    by blast
  then have d: "started_items (snd (generate_gallery gallery_env))
       = [''wizard'', ''knight'', ''dragon'', ''spaceship'', ''robot'', ''treasure'']"
    by (simp add: generate_gallery_def n)
  from w have "failed (loop_end gallery_env ''secret'' GALLERY_IMAGES)
      = int (length GALLERY_IMAGES)
        - int (length (succeeded_items gallery_env (driver_client gallery_env ''secret'')
                         (loop_start gallery_env ''secret'') GALLERY_IMAGES))"
    by blast
  then have e: "failed (loop_end gallery_env ''secret'' GALLERY_IMAGES) = 2"
    by (simp add: gallery_env_succeeded n)
  from a b c d e gallery_env_completed show ?thesis
    by (simp add: generate_gallery_def)
qed

text \<open>
  Claim C10. When a run completes, the summary it prints has a success count and a
  failure count whose sum is the number of requests. Every iteration adds one to exactly
  one of the two counters, so the loop adds the length of the list to their sum.
\<close>

theorem counters_add_up:
  assumes "generate_gallery_on E cfgs = (Completed, tr)"
  shows "(\<exists>s f. summaries tr = [(s, f, length cfgs)] \<and> s + f = int (length cfgs) \<and> 0 \<le> s \<and> 0 \<le> f)
       \<and> (successful (process_item E cl st c) = successful st + 1
            \<and> failed (process_item E cl st c) = failed st
          \<or> successful (process_item E cl st c) = successful st
            \<and> failed (process_item E cl st c) = failed st + 1)
       \<and> successful (gallery_loop E cl st cfgs) + failed (gallery_loop E cl st cfgs)
           = successful st + failed st + int (length cfgs)"
proof -
  from assms obtain k where fin: "finish E (loop_end E k cfgs) (length cfgs) = (Completed, tr)"
    by (auto simp: generate_gallery_on_def split: option.splits if_splits)
  let ?L = "loop_end E k cfgs"
  let ?ok = "succeeded_items E (driver_client E k) (loop_start E k) cfgs"
  have "length ?ok \<le> length cfgs"
    using subseq_succeeded_items by (rule list_emb_length)
  then have "successful ?L + failed ?L = int (length cfgs)" "0 \<le> successful ?L" "0 \<le> failed ?L"
    by (simp_all add: loop_end_def gallery_loop_counters loop_start_fields)
  moreover have "summaries tr = [(successful ?L, failed ?L, length cfgs)]"
    using finish_completed [OF fin]
    by (simp add: loop_end_def gallery_loop_projections loop_start_fields)
  ultimately have run: "\<exists>s f. summaries tr = [(s, f, length cfgs)] \<and> s + f = int (length cfgs)
      \<and> 0 \<le> s \<and> 0 \<le> f"
    by blast
  have step: "successful (process_item E cl st c) = successful st + 1
            \<and> failed (process_item E cl st c) = failed st
          \<or> successful (process_item E cl st c) = successful st
            \<and> failed (process_item E cl st c) = failed st + 1"
    by (simp add: process_item_counters)
  have "length (succeeded_items E cl st cfgs) \<le> length cfgs"
    using subseq_succeeded_items by (rule list_emb_length)
  then have loop: "successful (gallery_loop E cl st cfgs) + failed (gallery_loop E cl st cfgs)
           = successful st + failed st + int (length cfgs)"
    by (simp add: gallery_loop_counters)
  from run step loop show ?thesis by blast
qed

theorem counters_add_up_witness:
  "fst (generate_gallery gallery_env) = Completed
   \<and> summaries (snd (generate_gallery gallery_env)) = [(4, 2, 6)]
   \<and> (\<exists>s f. summaries (snd (generate_gallery gallery_env)) = [(s, f, length GALLERY_IMAGES)]
         \<and> s + f = int (length GALLERY_IMAGES))"
proof -
  have run: "generate_gallery_on gallery_env GALLERY_IMAGES
        = (Completed, snd (generate_gallery_on gallery_env GALLERY_IMAGES))"
    using gallery_env_completed by (simp add: prod_eq_iff)
  from counters_add_up [OF run]
  have "\<exists>s f. summaries (snd (generate_gallery_on gallery_env GALLERY_IMAGES))
            = [(s, f, length GALLERY_IMAGES)] \<and> s + f = int (length GALLERY_IMAGES)"
    by blast
  with gallery_env_completed gallery_env_summaries show ?thesis
    by (simp add: generate_gallery_def)
qed

end
